theory Spec2Isabelle
  imports Complex_Main
begin

section \<open>Order price recalculation (saleor/order/calculations.py)\<close>

text \<open>
  A shallow embedding of the price recalculation pipeline of
  \<^verbatim>\<open>saleor/order/calculations.py\<close>.  Python objects that the code mutates in place
  are passed and returned explicitly; every exception is a value of type \<open>error\<close>;
  the database, and the log of the capability calls made so far, form the \<open>world\<close>
  that the orchestrator threads through.
\<close>

subsection \<open>Decimals, money and taxed money\<close>

text \<open>
  \<^verbatim>\<open>Decimal\<close> amounts are exact rationals (the sums and products the code forms stay
  far below the 28 significant digits of Python's default decimal context, where
  \<^verbatim>\<open>Decimal\<close> arithmetic is exact).  Instants and durations are integers (microseconds).
\<close>

type_synonym decimal = rat
type_synonym datetime = int
type_synonym timedelta = int

datatype error = TaxError | ValueError | KeyError | OtherError string

record money =
  amount :: decimal
  currency :: string

record taxed_money =
  net :: money
  gross :: money

definition Money :: "decimal \<Rightarrow> string \<Rightarrow> money" where
  "Money a c = \<lparr>amount = a, currency = c\<rparr>"

definition TaxedMoney :: "money \<Rightarrow> money \<Rightarrow> taxed_money" where
  "TaxedMoney n g = \<lparr>net = n, gross = g\<rparr>"

text \<open>\<^verbatim>\<open>zero_taxed_money(currency)\<close>: the seed of the subtotal.\<close>

definition zero_taxed_money :: "string \<Rightarrow> taxed_money" where
  "zero_taxed_money c = TaxedMoney (Money 0 c) (Money 0 c)"

text \<open>\<^verbatim>\<open>Money.__add__\<close>: amounts in different currencies raise \<^verbatim>\<open>ValueError\<close>.\<close>

definition money_add :: "money \<Rightarrow> money \<Rightarrow> error + money" where
  "money_add a b =
     (if currency b \<noteq> currency a then Inl ValueError
      else Inr (Money (amount a + amount b) (currency a)))"

text \<open>\<^verbatim>\<open>Money.__mul__\<close> by a number; \<^verbatim>\<open>Money.__bool__\<close> is \<^verbatim>\<open>bool(self.amount)\<close>.\<close>

definition money_mul :: "money \<Rightarrow> int \<Rightarrow> money" where
  "money_mul a k = Money (amount a * of_int k) (currency a)"

definition money_bool :: "money \<Rightarrow> bool" where
  "money_bool a = (amount a \<noteq> 0)"

text \<open>\<^verbatim>\<open>TaxedMoney.__add__\<close> with a \<^verbatim>\<open>TaxedMoney\<close>, and with a \<^verbatim>\<open>Money\<close>;
  \<^verbatim>\<open>TaxedMoney.__mul__\<close>.\<close>

definition taxed_add :: "taxed_money \<Rightarrow> taxed_money \<Rightarrow> error + taxed_money" where
  "taxed_add a b =
     (case money_add (net a) (net b) of
        Inl e \<Rightarrow> Inl e
      | Inr n \<Rightarrow>
          (case money_add (gross a) (gross b) of
             Inl e \<Rightarrow> Inl e
           | Inr g \<Rightarrow> Inr (TaxedMoney n g)))"

definition taxed_add_money :: "taxed_money \<Rightarrow> money \<Rightarrow> error + taxed_money" where
  "taxed_add_money a b =
     (case money_add (net a) b of
        Inl e \<Rightarrow> Inl e
      | Inr n \<Rightarrow>
          (case money_add (gross a) b of
             Inl e \<Rightarrow> Inl e
           | Inr g \<Rightarrow> Inr (TaxedMoney n g)))"

definition taxed_mul :: "taxed_money \<Rightarrow> int \<Rightarrow> taxed_money" where
  "taxed_mul a k = TaxedMoney (money_mul (net a) k) (money_mul (gross a) k)"

subsection \<open>Orders, lines, tax data\<close>

record product =
  product_id :: nat

record variant =
  variant_id :: nat
  product :: product

datatype order_discount_type = VOUCHER | MANUAL

record order_discount =
  discount_id :: nat
  discount_type :: order_discount_type
  discount_amount :: money

record order =
  status :: string
  order_currency :: string
  total :: taxed_money
  undiscounted_total :: taxed_money
  shipping_price :: taxed_money
  shipping_tax_rate :: decimal
  price_expiration_for_unconfirmed :: datetime
  discounts :: "order_discount list"

record order_line =
  line_id :: nat
  variant :: "variant option"
  quantity :: int
  unit_price :: taxed_money
  total_price :: taxed_money
  undiscounted_unit_price :: taxed_money
  undiscounted_total_price :: taxed_money
  unit_discount :: money
  tax_rate :: decimal

record order_taxed_prices_data =
  undiscounted_price :: taxed_money
  price_with_discounts :: taxed_money

record tax_line_data =
  tl_id :: nat
  unit_net_amount :: decimal
  unit_gross_amount :: decimal
  tl_total_net_amount :: decimal
  tl_total_gross_amount :: decimal
  tl_tax_rate :: decimal

record tax_data =
  total_net_amount :: decimal
  total_gross_amount :: decimal
  shipping_price_net_amount :: decimal
  shipping_price_gross_amount :: decimal
  td_shipping_tax_rate :: decimal
  td_lines :: "tax_line_data list"

subsection \<open>The capability interfaces and the world\<close>

text \<open>
  \<^verbatim>\<open>PluginsManager\<close>: each method either returns a value or raises (\<open>Inl\<close>).  The
  address argument of \<^verbatim>\<open>get_order_line_tax_rate\<close> is always \<^verbatim>\<open>None\<close> and is left out.
\<close>

record manager =
  calculate_order_line_unit ::
    "order \<Rightarrow> order_line \<Rightarrow> variant \<Rightarrow> product \<Rightarrow> error + order_taxed_prices_data"
  calculate_order_line_total ::
    "order \<Rightarrow> order_line \<Rightarrow> variant \<Rightarrow> product \<Rightarrow> error + order_taxed_prices_data"
  get_order_line_tax_rate ::
    "order \<Rightarrow> product \<Rightarrow> variant \<Rightarrow> taxed_money \<Rightarrow> error + decimal"
  calculate_order_shipping :: "order \<Rightarrow> error + taxed_money"
  get_order_shipping_tax_rate :: "order \<Rightarrow> taxed_money \<Rightarrow> error + decimal"
  get_taxes_for_order :: "order \<Rightarrow> error + tax_data option"

text \<open>
  What the module imports from parts of the repository that are not among the sources:
  the constant \<^verbatim>\<open>ORDER_EDITABLE_STATUS\<close>, the setting \<^verbatim>\<open>ORDER_PRICES_TTL\<close>, the
  precision of a currency (used by \<^verbatim>\<open>quantize_price\<close>), and the new total and
  undiscounted total that applying one order discount gives.  They are parameters.
\<close>

record env =
  ORDER_EDITABLE_STATUS :: "string list"
  ORDER_PRICES_TTL :: timedelta
  get_currency_precision :: "string \<Rightarrow> nat"
  discounted_totals :: "order \<Rightarrow> order_discount \<Rightarrow> error + taxed_money \<times> taxed_money"

datatype capability =
    CalculateOrderLineUnit nat
  | CalculateOrderLineTotal nat
  | GetOrderLineTaxRate nat
  | CalculateOrderShipping
  | GetOrderShippingTaxRate
  | GetTaxesForOrder
  | UpdateOrderDiscount nat

text \<open>
  The world: the stored row of the order, the stored rows of its lines, and the log of
  the capability calls made so far (oldest first).
\<close>

record world =
  db_order :: order
  db_lines :: "order_line list"
  calls :: "capability list"

subsection \<open>The price computation engine\<close>

text \<open>
  The body of the \<^verbatim>\<open>try\<close> block for one line (lines 35--49): the exception it raised, if
  any, the line as assigned so far, and the log.
\<close>

definition recalculate_line_try ::
  "manager \<Rightarrow> order \<Rightarrow> order_line \<Rightarrow> variant \<Rightarrow> capability list
     \<Rightarrow> error option \<times> order_line \<times> capability list" where
  "recalculate_line_try m ord line v lg =
     (let lg1 = lg @ [CalculateOrderLineUnit (line_id line)] in
      case calculate_order_line_unit m ord line v (product v) of
        Inl e \<Rightarrow> (Some e, line, lg1)
      | Inr line_unit \<Rightarrow>
          (let line1 = line\<lparr>undiscounted_unit_price := undiscounted_price line_unit,
                            unit_price := price_with_discounts line_unit\<rparr>;
               lg2 = lg1 @ [CalculateOrderLineTotal (line_id line)] in
           case calculate_order_line_total m ord line1 v (product v) of
             Inl e \<Rightarrow> (Some e, line1, lg2)
           | Inr line_total \<Rightarrow>
               (let line2 = line1\<lparr>undiscounted_total_price := undiscounted_price line_total,
                                  total_price := price_with_discounts line_total\<rparr>;
                    lg3 = lg2 @ [GetOrderLineTaxRate (line_id line)] in
                case get_order_line_tax_rate m ord (product v) v (undiscounted_price line_unit) of
                  Inl e \<Rightarrow> (Some e, line2, lg3)
                | Inr r \<Rightarrow> (None, line2\<lparr>tax_rate := r\<rparr>, lg3))))"

text \<open>
  \<^verbatim>\<open>except TaxError: pass\<close>: the exception that leaves the \<^verbatim>\<open>try\<close> statement, if any.
\<close>

definition except_TaxError :: "error option \<Rightarrow> error option" where
  "except_TaxError exc =
     (case exc of
        None \<Rightarrow> None
      | Some e \<Rightarrow> (if e = TaxError then None else Some e))"

text \<open>
  One iteration of the loop up to the assignment of the subtotal: a line without a
  variant is skipped, \<^verbatim>\<open>TaxError\<close> is swallowed, any other exception propagates.
\<close>

definition recalculate_line ::
  "manager \<Rightarrow> order \<Rightarrow> order_line \<Rightarrow> capability list
     \<Rightarrow> (error + order_line) \<times> capability list" where
  "recalculate_line m ord line lg =
     (case variant line of
        None \<Rightarrow> (Inr line, lg)
      | Some v \<Rightarrow>
          (case recalculate_line_try m ord line v lg of
             (exc, line', lg') \<Rightarrow>
               (case except_TaxError exc of
                  Some e \<Rightarrow> (Inl e, lg')
                | None \<Rightarrow> (Inr line', lg'))))"

text \<open>The loop over the lines, with the running subtotal (lines 29--53).\<close>

fun recalculate_lines ::
  "manager \<Rightarrow> order \<Rightarrow> order_line list \<Rightarrow> taxed_money \<Rightarrow> capability list
     \<Rightarrow> (error + order_line list \<times> taxed_money) \<times> capability list" where
  "recalculate_lines m ord [] subtotal lg = (Inr ([], subtotal), lg)"
| "recalculate_lines m ord (line # lines) subtotal lg =
     (case recalculate_line m ord line lg of
        (Inl e, lg') \<Rightarrow> (Inl e, lg')
      | (Inr line', lg') \<Rightarrow>
          (case taxed_add subtotal (total_price line') of
             Inl e \<Rightarrow> (Inl e, lg')
           | Inr subtotal' \<Rightarrow>
               (case recalculate_lines m ord lines subtotal' lg' of
                  (Inl e, lg'') \<Rightarrow> (Inl e, lg'')
                | (Inr (lines', s), lg'') \<Rightarrow> (Inr (line' # lines', s), lg''))))"

text \<open>The body of the \<^verbatim>\<open>try\<close> block for shipping (lines 56--59).\<close>

definition recalculate_shipping_try ::
  "manager \<Rightarrow> order \<Rightarrow> capability list \<Rightarrow> error option \<times> order \<times> capability list" where
  "recalculate_shipping_try m ord lg =
     (let lg1 = lg @ [CalculateOrderShipping] in
      case calculate_order_shipping m ord of
        Inl e \<Rightarrow> (Some e, ord, lg1)
      | Inr sp \<Rightarrow>
          (let ord1 = ord\<lparr>shipping_price := sp\<rparr>;
               lg2 = lg1 @ [GetOrderShippingTaxRate] in
           case get_order_shipping_tax_rate m ord1 (shipping_price ord1) of
             Inl e \<Rightarrow> (Some e, ord1, lg2)
           | Inr r \<Rightarrow> (None, ord1\<lparr>shipping_tax_rate := r\<rparr>, lg2)))"

text \<open>\<^verbatim>\<open>_recalculate_order_prices\<close>.\<close>

definition recalculate_order_prices ::
  "manager \<Rightarrow> order \<Rightarrow> order_line list \<Rightarrow> capability list
     \<Rightarrow> (error + order \<times> order_line list) \<times> capability list" where
  "recalculate_order_prices m ord lines lg =
     (case recalculate_lines m ord lines (zero_taxed_money (order_currency ord)) lg of
        (Inl e, lg1) \<Rightarrow> (Inl e, lg1)
      | (Inr (lines', subtotal), lg1) \<Rightarrow>
          (case recalculate_shipping_try m ord lg1 of
             (exc, ord1, lg2) \<Rightarrow>
               (case except_TaxError exc of
                  Some e \<Rightarrow> (Inl e, lg2)
                | None \<Rightarrow>
                    (case taxed_add (shipping_price ord1) subtotal of
                       Inl e \<Rightarrow> (Inl e, lg2)
                     | Inr t \<Rightarrow> (Inr (ord1\<lparr>total := t\<rparr>, lines'), lg2)))))"

subsection \<open>The tax data overlay\<close>

definition create_taxed_money :: "order \<Rightarrow> decimal \<Rightarrow> decimal \<Rightarrow> taxed_money" where
  "create_taxed_money ord n g =
     TaxedMoney (Money n (order_currency ord)) (Money g (order_currency ord))"

text \<open>
  \<^verbatim>\<open>{line.id: line for line in tax_data.lines}\<close>: of two entries with one id the later
  one stays.
\<close>

definition tax_lines_dict :: "tax_data \<Rightarrow> (nat \<rightharpoonup> tax_line_data)" where
  "tax_lines_dict td = fold (\<lambda>l d. d(tl_id l \<mapsto> l)) (td_lines td) Map.empty"

text \<open>
  The loop of lines 85--94: \<^verbatim>\<open>tax_lines[line.id]\<close> raises \<^verbatim>\<open>KeyError\<close> at the first line
  that has no entry.
\<close>

fun apply_tax_lines ::
  "order \<Rightarrow> (nat \<rightharpoonup> tax_line_data) \<Rightarrow> order_line list \<Rightarrow> error + order_line list" where
  "apply_tax_lines ord tax_lines [] = Inr []"
| "apply_tax_lines ord tax_lines (order_line # lines) =
     (case tax_lines (line_id order_line) of
        None \<Rightarrow> Inl KeyError
      | Some tax_line \<Rightarrow>
          (case apply_tax_lines ord tax_lines lines of
             Inl e \<Rightarrow> Inl e
           | Inr lines' \<Rightarrow>
               Inr (order_line
                     \<lparr>unit_price := create_taxed_money ord (unit_net_amount tax_line)
                                      (unit_gross_amount tax_line),
                      total_price := create_taxed_money ord (tl_total_net_amount tax_line)
                                       (tl_total_gross_amount tax_line),
                      tax_rate := tl_tax_rate tax_line\<rparr> # lines')))"

text \<open>\<^verbatim>\<open>_apply_tax_data\<close>.\<close>

definition apply_tax_data ::
  "order \<Rightarrow> order_line list \<Rightarrow> tax_data \<Rightarrow> error + order \<times> order_line list" where
  "apply_tax_data ord lines td =
     (let ord1 = ord\<lparr>total := create_taxed_money ord (total_net_amount td)
                                (total_gross_amount td),
                      shipping_price := create_taxed_money ord (shipping_price_net_amount td)
                                          (shipping_price_gross_amount td),
                      shipping_tax_rate := td_shipping_tax_rate td\<rparr> in
      case apply_tax_lines ord1 (tax_lines_dict td) lines of
        Inl e \<Rightarrow> Inl e
      | Inr lines' \<Rightarrow> Inr (ord1, lines'))"

subsection \<open>Discount reconciliation\<close>

text \<open>The body of the first loop (lines 100--105), for one line.\<close>

definition recalculate_line_discount :: "order_line \<Rightarrow> error + order_line" where
  "recalculate_line_discount line =
     (case taxed_add_money (unit_price line) (unit_discount line) of
        Inl e \<Rightarrow> Inl e
      | Inr u \<Rightarrow>
          Inr (line\<lparr>undiscounted_unit_price := u,
                    undiscounted_total_price :=
                      (if money_bool (unit_discount line) then taxed_mul u (quantity line)
                       else total_price line)\<rparr>))"

fun recalculate_line_discounts :: "order_line list \<Rightarrow> error + order_line list" where
  "recalculate_line_discounts [] = Inr []"
| "recalculate_line_discounts (line # lines) =
     (case recalculate_line_discount line of
        Inl e \<Rightarrow> Inl e
      | Inr line' \<Rightarrow>
          (case recalculate_line_discounts lines of
             Inl e \<Rightarrow> Inl e
           | Inr lines' \<Rightarrow> Inr (line' # lines')))"

text \<open>
  Modelled from the spec: \<^verbatim>\<open>utils.update_order_discount_for_order\<close> is not among the
  sources.  The spec gives its contract: given an order and a discount record, it
  mutates the order's total and undiscounted total (and keeps the discount record's
  amount in sync, which this model does not follow).  The two new totals are the
  parameter \<open>discounted_totals\<close>.
\<close>

definition update_order_discount_for_order ::
  "env \<Rightarrow> order \<Rightarrow> order_discount \<Rightarrow> error + order" where
  "update_order_discount_for_order env ord order_discount =
     (case discounted_totals env ord order_discount of
        Inl e \<Rightarrow> Inl e
      | Inr (t, u) \<Rightarrow> Inr (ord\<lparr>total := t, undiscounted_total := u\<rparr>))"

text \<open>The second loop (lines 108--112).\<close>

fun update_order_discounts ::
  "env \<Rightarrow> order \<Rightarrow> order_discount list \<Rightarrow> capability list
     \<Rightarrow> (error + order) \<times> capability list" where
  "update_order_discounts env ord [] lg = (Inr ord, lg)"
| "update_order_discounts env ord (order_discount # order_discounts) lg =
     (case update_order_discount_for_order env ord order_discount of
        Inl e \<Rightarrow> (Inl e, lg @ [UpdateOrderDiscount (discount_id order_discount)])
      | Inr ord' \<Rightarrow>
          update_order_discounts env ord' order_discounts
            (lg @ [UpdateOrderDiscount (discount_id order_discount)]))"

text \<open>\<^verbatim>\<open>_recalculate_order_discounts\<close>.\<close>

definition recalculate_order_discounts ::
  "env \<Rightarrow> order \<Rightarrow> order_line list \<Rightarrow> capability list
     \<Rightarrow> (error + order \<times> order_line list) \<times> capability list" where
  "recalculate_order_discounts env ord lines lg =
     (case recalculate_line_discounts lines of
        Inl e \<Rightarrow> (Inl e, lg)
      | Inr lines' \<Rightarrow>
          (case update_order_discounts env ord
                  (filter (\<lambda>d. discount_type d = MANUAL) (discounts ord)) lg of
             (Inl e, lg') \<Rightarrow> (Inl e, lg')
           | (Inr ord', lg') \<Rightarrow> (Inr (ord', lines'), lg')))"

subsection \<open>Persistence\<close>

text \<open>\<^verbatim>\<open>order.save(update_fields=[...])\<close>: the listed fields of the object go to its row.\<close>

definition order_save :: "order \<Rightarrow> world \<Rightarrow> world" where
  "order_save ord w =
     w\<lparr>db_order := (db_order w)
          \<lparr>total := total ord,
           undiscounted_total := undiscounted_total ord,
           shipping_price := shipping_price ord,
           shipping_tax_rate := shipping_tax_rate ord,
           price_expiration_for_unconfirmed := price_expiration_for_unconfirmed ord\<rparr>\<rparr>"

text \<open>
  \<^verbatim>\<open>order.lines.bulk_update(lines, [...])\<close>: every stored line of the order whose key is
  the key of an object of \<open>lines\<close> takes the listed fields of (the first such) object.
\<close>

definition update_line_row :: "order_line \<Rightarrow> order_line \<Rightarrow> order_line" where
  "update_line_row row line =
     row\<lparr>unit_price := unit_price line,
         undiscounted_unit_price := undiscounted_unit_price line,
         total_price := total_price line,
         undiscounted_total_price := undiscounted_total_price line,
         tax_rate := tax_rate line\<rparr>"

definition lines_bulk_update :: "order_line list \<Rightarrow> world \<Rightarrow> world" where
  "lines_bulk_update lines w =
     w\<lparr>db_lines :=
          map (\<lambda>row. case find (\<lambda>l. line_id l = line_id row) lines of
                       None \<Rightarrow> row
                     | Some l \<Rightarrow> update_line_row row l)
            (db_lines w)\<rparr>"

text \<open>
  \<^verbatim>\<open>with transaction.atomic(savepoint=False)\<close>: when the block raises, what it wrote to
  the database is rolled back, and the exception propagates.
\<close>

definition transaction_atomic ::
  "(world \<Rightarrow> (error + 'a) \<times> world) \<Rightarrow> world \<Rightarrow> (error + 'a) \<times> world" where
  "transaction_atomic body w =
     (case body w of
        (Inl e, w') \<Rightarrow> (Inl e, w'\<lparr>db_order := db_order w, db_lines := db_lines w\<rparr>)
      | (Inr x, w') \<Rightarrow> (Inr x, w'))"

subsection \<open>The orchestrator\<close>

text \<open>The block under \<^verbatim>\<open>transaction.atomic\<close> (lines 148--179).\<close>

definition apply_and_save ::
  "env \<Rightarrow> order \<Rightarrow> order_line list \<Rightarrow> tax_data option \<Rightarrow> world
     \<Rightarrow> (error + order \<times> order_line list option) \<times> world" where
  "apply_and_save env ord lines tax_data w =
     (case (case tax_data of
              None \<Rightarrow> Inr (ord, lines)
            | Some td \<Rightarrow> apply_tax_data ord lines td) of
        Inl e \<Rightarrow> (Inl e, w)
      | Inr (ord1, lines1) \<Rightarrow>
          (case recalculate_order_discounts env ord1 lines1 (calls w) of
             (Inl e, lg) \<Rightarrow> (Inl e, w\<lparr>calls := lg\<rparr>)
           | (Inr (ord2, lines2), lg) \<Rightarrow>
               (Inr (ord2, Some lines2),
                lines_bulk_update lines2 (order_save ord2 (w\<lparr>calls := lg\<rparr>)))))"

text \<open>
  \<^verbatim>\<open>fetch_order_prices_if_expired\<close>.  \<open>now_check\<close> is what \<^verbatim>\<open>timezone.now()\<close> returns in
  the staleness test of line 133 and \<open>now_refresh\<close> what it returns in line 141.  When
  the function raises, the model returns the exception and the world; the objects the
  caller passed in, which Python has mutated in memory by then, are not returned.
\<close>

definition fetch_order_prices_if_expired ::
  "env \<Rightarrow> manager \<Rightarrow> datetime \<Rightarrow> datetime \<Rightarrow> order \<Rightarrow> order_line list option \<Rightarrow> bool
     \<Rightarrow> world \<Rightarrow> (error + order \<times> order_line list option) \<times> world" where
  "fetch_order_prices_if_expired env m now_check now_refresh ord lines force_update w =
     (if status ord \<notin> set (ORDER_EDITABLE_STATUS env) then (Inr (ord, lines), w)
      else if \<not> force_update \<and> price_expiration_for_unconfirmed ord > now_check
      then (Inr (ord, lines), w)
      else
        (let lines1 = (case lines of None \<Rightarrow> db_lines w | Some ls \<Rightarrow> ls);
             ord1 = ord\<lparr>price_expiration_for_unconfirmed :=
                          now_refresh + ORDER_PRICES_TTL env\<rparr> in
         case recalculate_order_prices m ord1 lines1 (calls w) of
           (Inl e, lg1) \<Rightarrow> (Inl e, w\<lparr>calls := lg1\<rparr>)
         | (Inr (ord2, lines2), lg1) \<Rightarrow>
             (case get_taxes_for_order m ord2 of
                Inl e \<Rightarrow> (Inl e, w\<lparr>calls := lg1 @ [GetTaxesForOrder]\<rparr>)
              | Inr tax_data \<Rightarrow>
                  transaction_atomic (apply_and_save env ord2 lines2 tax_data)
                    (w\<lparr>calls := lg1 @ [GetTaxesForOrder]\<rparr>))))"

subsection \<open>The cached accessor of the order total\<close>







subsection \<open>The invariant of the order total, as the spec words it\<close>

text \<open>
  The spec: after a recalculation
  \<^verbatim>\<open>order.total == order.shippingPrice + sum(line.totalPrice for line in lines)\<close>, exactly,
  in the order's currency, the sum starting from a zero taxed amount in that currency.
  The equation holds only when every sum in it can be formed, that is when all the
  amounts are in one currency.
\<close>

fun sum_total_prices :: "taxed_money \<Rightarrow> order_line list \<Rightarrow> error + taxed_money" where
  "sum_total_prices acc [] = Inr acc"
| "sum_total_prices acc (line # lines) =
     (case taxed_add acc (total_price line) of
        Inl e \<Rightarrow> Inl e
      | Inr acc' \<Rightarrow> sum_total_prices acc' lines)"

definition order_total_invariant :: "order \<Rightarrow> order_line list \<Rightarrow> bool" where
  "order_total_invariant ord lines =
     (case sum_total_prices (zero_taxed_money (order_currency ord)) lines of
        Inl e \<Rightarrow> False
      | Inr s \<Rightarrow> taxed_add (shipping_price ord) s = Inr (total ord))"

text \<open>
  The figures of a tax data add up for the given lines: its total is its shipping price
  plus its totals for the lines (the entry with the id of each line), net and gross.
\<close>

definition tax_line_total :: "tax_data \<Rightarrow> order_line \<Rightarrow> decimal \<times> decimal" where
  "tax_line_total td line =
     (case tax_lines_dict td (line_id line) of
        None \<Rightarrow> (0, 0)
      | Some tax_line \<Rightarrow> (tl_total_net_amount tax_line, tl_total_gross_amount tax_line))"

definition tax_data_consistent :: "tax_data \<Rightarrow> order_line list \<Rightarrow> bool" where
  "tax_data_consistent td lines =
     (total_net_amount td
        = shipping_price_net_amount td + sum_list (map (\<lambda>l. fst (tax_line_total td l)) lines) \<and>
      total_gross_amount td
        = shipping_price_gross_amount td + sum_list (map (\<lambda>l. snd (tax_line_total td l)) lines))"

subsection \<open>Concrete inputs\<close>

text \<open>
  A draft order in US dollars with one line of three units at 8.00 each, carrying a unit
  discount of 2.00, and a manager that prices it; used to run the model.
\<close>

definition usd :: "decimal \<Rightarrow> taxed_money" where
  "usd a = TaxedMoney (Money a ''USD'') (Money a ''USD'')"

definition ex_env :: env where
  "ex_env =
     \<lparr>ORDER_EDITABLE_STATUS = [''draft'', ''unconfirmed''],
      ORDER_PRICES_TTL = 3600,
      get_currency_precision = (\<lambda>c. 2),
      discounted_totals = (\<lambda>ord d. Inr (total ord, undiscounted_total ord))\<rparr>"

definition ex_variant :: variant where
  "ex_variant = \<lparr>variant_id = 7, product = \<lparr>product_id = 5\<rparr>\<rparr>"

definition ex_order :: order where
  "ex_order =
     \<lparr>status = ''draft'', order_currency = ''USD'', total = usd 0,
      undiscounted_total = usd 0, shipping_price = usd 0, shipping_tax_rate = 0,
      price_expiration_for_unconfirmed = 100, discounts = []\<rparr>"

definition ex_line :: order_line where
  "ex_line =
     \<lparr>line_id = 1, variant = Some ex_variant, quantity = 3, unit_price = usd 8,
      total_price = usd 24, undiscounted_unit_price = usd 8,
      undiscounted_total_price = usd 24, unit_discount = Money 2 ''USD'', tax_rate = 0\<rparr>"

definition ex_line2 :: order_line where
  "ex_line2 =
     \<lparr>line_id = 2, variant = Some ex_variant, quantity = 1, unit_price = usd 4,
      total_price = usd 4, undiscounted_unit_price = usd 4,
      undiscounted_total_price = usd 4, unit_discount = Money 0 ''USD'', tax_rate = 0\<rparr>"

definition ex_manager :: manager where
  "ex_manager =
     \<lparr>calculate_order_line_unit =
        (\<lambda>ord line v p. Inr \<lparr>undiscounted_price = usd 11, price_with_discounts = usd 9\<rparr>),
      calculate_order_line_total =
        (\<lambda>ord line v p. Inr \<lparr>undiscounted_price = usd 33, price_with_discounts = usd 27\<rparr>),
      get_order_line_tax_rate = (\<lambda>ord p v price. Inr (1 / 5)),
      calculate_order_shipping = (\<lambda>ord. Inr (usd 5)),
      get_order_shipping_tax_rate = (\<lambda>ord price. Inr (1 / 10)),
      get_taxes_for_order = (\<lambda>ord. Inr None)\<rparr>"

definition ex_world :: world where
  "ex_world = \<lparr>db_order = ex_order, db_lines = [ex_line], calls = []\<rparr>"

text \<open>Tax data for the order that has an entry for line 1 only.\<close>

definition ex_tax_data :: tax_data where
  "ex_tax_data =
     \<lparr>total_net_amount = 100, total_gross_amount = 120,
      shipping_price_net_amount = 10, shipping_price_gross_amount = 12,
      td_shipping_tax_rate = 1 / 5,
      td_lines =
        [\<lparr>tl_id = 1, unit_net_amount = 7, unit_gross_amount = 8,
          tl_total_net_amount = 21, tl_total_gross_amount = 24, tl_tax_rate = 1 / 7\<rparr>]\<rparr>"

text \<open>A fulfilled order whose stored total carries a third decimal digit.\<close>

definition ex_fulfilled_order :: order where
  "ex_fulfilled_order =
     ex_order\<lparr>status := ''fulfilled'',
              total := TaxedMoney (Money (19995 / 1000) ''USD'') (Money (24594 / 1000) ''USD'')\<rparr>"

text \<open>
  Modelled from the spec: \<^verbatim>\<open>utils.update_order_discount_for_order\<close> is not among the
  sources.  The spec: applying a manual discount recomputes the order's total downward
  by the discount's amount, clamped so that the total never goes negative.  This is one
  such effect, for the parameter \<open>discounted_totals\<close>; the undiscounted total is left.
\<close>

definition lower_money :: "money \<Rightarrow> money \<Rightarrow> money" where
  "lower_money a d = Money (max 0 (amount a - amount d)) (currency a)"

definition ex_discounted_totals ::
  "order \<Rightarrow> order_discount \<Rightarrow> error + taxed_money \<times> taxed_money" where
  "ex_discounted_totals ord d =
     Inr (TaxedMoney (lower_money (net (total ord)) (discount_amount d))
            (lower_money (gross (total ord)) (discount_amount d)),
          undiscounted_total ord)"

definition ex_discount_env :: env where
  "ex_discount_env = ex_env\<lparr>discounted_totals := ex_discounted_totals\<rparr>"

text \<open>The draft order with a manual discount of 10.00.\<close>

definition ex_discounted_order :: order where
  "ex_discounted_order =
     ex_order\<lparr>discounts :=
       [\<lparr>discount_id = 1, discount_type = MANUAL, discount_amount = Money 10 ''USD''\<rparr>]\<rparr>"

section \<open>Properties\<close>

lemmas ex_defs =
  ex_env_def ex_order_def ex_line_def ex_line2_def ex_manager_def ex_world_def
  ex_tax_data_def ex_fulfilled_order_def ex_variant_def usd_def

lemmas ex_discount_defs =
  ex_discount_env_def ex_discounted_totals_def ex_discounted_order_def lower_money_def

lemmas money_defs =
  Money_def TaxedMoney_def zero_taxed_money_def money_add_def money_mul_def money_bool_def
  taxed_add_def taxed_add_money_def taxed_mul_def

lemmas engine_defs =
  recalculate_order_prices_def recalculate_line_def recalculate_line_try_def
  except_TaxError_def recalculate_shipping_try_def

lemmas commit_defs =
  transaction_atomic_def apply_and_save_def recalculate_order_discounts_def
  recalculate_line_discount_def update_order_discount_for_order_def order_save_def
  lines_bulk_update_def update_line_row_def apply_tax_data_def tax_lines_dict_def
  create_taxed_money_def

subsection \<open>Money\<close>

lemma except_TaxError_not_TaxError: "except_TaxError exc \<noteq> Some TaxError"
  by (simp add: except_TaxError_def split: option.splits)

lemma money_add_Inr:
  "money_add a b = Inr c \<Longrightarrow>
     amount c = amount a + amount b \<and> currency c = currency a \<and> currency b = currency a"
  by (auto simp: money_add_def Money_def split: if_splits)

lemma money_add_Inl: "money_add a b = Inl e \<Longrightarrow> e = ValueError"
  by (auto simp: money_add_def split: if_splits)

lemma taxed_add_Inr:
  "taxed_add a b = Inr c \<Longrightarrow>
     amount (net c) = amount (net a) + amount (net b) \<and>
     amount (gross c) = amount (gross a) + amount (gross b) \<and>
     currency (net c) = currency (net a) \<and> currency (net b) = currency (net a) \<and>
     currency (gross c) = currency (gross a) \<and> currency (gross b) = currency (gross a)"
  by (auto simp: taxed_add_def TaxedMoney_def split: sum.splits dest: money_add_Inr)

lemma taxed_add_Inl: "taxed_add a b = Inl e \<Longrightarrow> e = ValueError"
  by (auto simp: taxed_add_def split: sum.splits dest: money_add_Inl)

subsection \<open>The engine\<close>

lemma recalculate_line_try_log_indep:
  "fst (recalculate_line_try m ord l v lg) = fst (recalculate_line_try m ord l v lg') \<and>
   fst (snd (recalculate_line_try m ord l v lg)) = fst (snd (recalculate_line_try m ord l v lg'))"
  by (simp add: recalculate_line_try_def Let_def split: sum.splits)

lemma recalculate_line_log_indep:
  "fst (recalculate_line m ord l lg) = fst (recalculate_line m ord l lg')"
proof (cases "variant l")
  case None
  then show ?thesis by (simp add: recalculate_line_def)
next
  case (Some v)
  show ?thesis
    using recalculate_line_try_log_indep [of m ord l v lg lg'] Some
    by (cases "recalculate_line_try m ord l v lg"; cases "recalculate_line_try m ord l v lg'")
       (auto simp: recalculate_line_def split: option.splits)
qed

lemma recalculate_line_try_frame:
  "recalculate_line_try m ord l v lg = (exc, l', lg') \<Longrightarrow>
     line_id l' = line_id l \<and> variant l' = variant l \<and> quantity l' = quantity l \<and>
     unit_discount l' = unit_discount l"
  by (auto simp: recalculate_line_try_def Let_def split: sum.splits)

lemma recalculate_line_frame:
  "recalculate_line m ord l lg = (Inr l', lg') \<Longrightarrow>
     line_id l' = line_id l \<and> variant l' = variant l \<and> quantity l' = quantity l \<and>
     unit_discount l' = unit_discount l"
  by (auto simp: recalculate_line_def split: option.splits prod.splits dest: recalculate_line_try_frame)

lemma recalculate_line_not_TaxError: "fst (recalculate_line m ord l lg) \<noteq> Inl TaxError"
  using except_TaxError_not_TaxError
  by (auto simp: recalculate_line_def split: option.splits prod.splits)

lemma recalculate_lines_not_TaxError:
  "fst (recalculate_lines m ord ls s lg) \<noteq> Inl TaxError"
proof (induction ls arbitrary: s lg)
  case Nil
  then show ?case by simp
next
  case (Cons l ls)
  have ih: "\<And>s lg x. recalculate_lines m ord ls s lg \<noteq> (Inl TaxError, x)"
    using Cons.IH by (metis fst_conv)
  show ?case
    using recalculate_line_not_TaxError [of m ord l lg] ih
    by (auto split: prod.splits sum.splits dest: taxed_add_Inl)
qed

lemma recalculate_lines_Inr:
  "recalculate_lines m ord ls s lg = (Inr (ls', s'), lg') \<Longrightarrow>
     length ls' = length ls \<and>
     map line_id ls' = map line_id ls \<and>
     map (\<lambda>l. fst (recalculate_line m ord l [])) ls = map Inr ls' \<and>
     amount (net s') = amount (net s) + sum_list (map (\<lambda>l. amount (net (total_price l))) ls') \<and>
     amount (gross s') = amount (gross s) + sum_list (map (\<lambda>l. amount (gross (total_price l))) ls') \<and>
     currency (net s') = currency (net s) \<and> currency (gross s') = currency (gross s) \<and>
     list_all (\<lambda>l. currency (net (total_price l)) = currency (net s) \<and>
                    currency (gross (total_price l)) = currency (gross s)) ls'"
proof (induction ls arbitrary: s lg ls' s' lg')
  case Nil
  then show ?case by auto
next
  case (Cons l ls)
  from Cons.prems obtain l1 lg1 s1 ls1 where
    a: "recalculate_line m ord l lg = (Inr l1, lg1)" and
    b: "taxed_add s (total_price l1) = Inr s1" and
    c: "recalculate_lines m ord ls s1 lg1 = (Inr (ls1, s'), lg')" and
    d: "ls' = l1 # ls1"
    by (auto split: prod.splits sum.splits)
  from a have e: "fst (recalculate_line m ord l []) = Inr l1"
    using recalculate_line_log_indep [of m ord l "[]" lg] by simp
  show ?case
    using Cons.IH [OF c] taxed_add_Inr [OF b] recalculate_line_frame [OF a] d e
    by (simp add: algebra_simps)
qed


subsection \<open>The staleness gate\<close>

text \<open>
  C8.  For an order whose status is outside the editable set,
  \<^verbatim>\<open>fetch_order_prices_if_expired\<close> returns the order and the lines as given, and the
  world is the one it started in: no field is written and the log of capability calls
  is unchanged.  This holds for every reading of the clock, so also when the expiration
  is in the past, and for both values of \<open>force_update\<close>.
\<close>

theorem fetch_not_editable_unchanged:
  "status ord \<notin> set (ORDER_EDITABLE_STATUS env) \<Longrightarrow>
   fetch_order_prices_if_expired env m now_check now_refresh ord lines force_update w
     = (Inr (ord, lines), w)"
  by (simp add: fetch_order_prices_if_expired_def)

theorem fetch_not_editable_unchanged_witness:
  "status ex_fulfilled_order \<notin> set (ORDER_EDITABLE_STATUS ex_env) \<and>
   price_expiration_for_unconfirmed ex_fulfilled_order < 500 \<and>
   fetch_order_prices_if_expired ex_env ex_manager 500 500 ex_fulfilled_order None True ex_world
     = (Inr (ex_fulfilled_order, None), ex_world)"
proof -
  have h: "status ex_fulfilled_order \<notin> set (ORDER_EDITABLE_STATUS ex_env)"
    by (simp add: ex_defs)
  show ?thesis
    using h fetch_not_editable_unchanged [OF h, of ex_manager 500 500 None True ex_world]
    by (simp add: ex_defs)
qed

text \<open>
  C5 (as amended).  For an order whose status is in the editable set, if \<open>force_update\<close>
  is false and the clock read by the staleness test is strictly before
  \<open>price_expiration_for_unconfirmed\<close>, the order is fresh: the order and the lines are
  returned as given, the world is unchanged (nothing is written, no capability is
  called).  The test of the code is \<^verbatim>\<open>price_expiration_for_unconfirmed > now\<close>, so at
  \<open>now = price_expiration_for_unconfirmed\<close> the order is stale and is recalculated.
\<close>

theorem fetch_fresh_before_expiration:
  "status ord \<in> set (ORDER_EDITABLE_STATUS env) \<Longrightarrow> \<not> force_update \<Longrightarrow>
   now_check < price_expiration_for_unconfirmed ord \<Longrightarrow>
   fetch_order_prices_if_expired env m now_check now_refresh ord lines force_update w
     = (Inr (ord, lines), w)"
  by (simp add: fetch_order_prices_if_expired_def)


theorem fetch_fresh_before_expiration_witness:
  "status ex_order \<in> set (ORDER_EDITABLE_STATUS ex_env) \<and>
   (99 :: int) < price_expiration_for_unconfirmed ex_order \<and>
   fetch_order_prices_if_expired ex_env ex_manager 99 99 ex_order None False ex_world
     = (Inr (ex_order, None), ex_world)"
proof -
  have h1: "status ex_order \<in> set (ORDER_EDITABLE_STATUS ex_env)" by (simp add: ex_defs)
  have h2: "\<not> False" by simp
  have h3: "(99 :: int) < price_expiration_for_unconfirmed ex_order" by (simp add: ex_defs)
  show ?thesis
    using h1 h3 fetch_fresh_before_expiration [OF h1 h2 h3, of ex_manager 99 None ex_world]
    by simp
qed


text \<open>
  At the boundary the claim as first stated fails: with the clock at the expiration
  instant and no force, the capabilities are called and a new expiration is stored.
\<close>

theorem fetch_at_expiration_counterexample:
  "status ex_order \<in> set (ORDER_EDITABLE_STATUS ex_env) \<and>
   (100 :: int) \<le> price_expiration_for_unconfirmed ex_order \<and>
   calls (snd (fetch_order_prices_if_expired ex_env ex_manager 100 100 ex_order
                 (Some [ex_line]) False ex_world))
     = [CalculateOrderLineUnit 1, CalculateOrderLineTotal 1, GetOrderLineTaxRate 1,
        CalculateOrderShipping, GetOrderShippingTaxRate, GetTaxesForOrder] \<and>
   calls ex_world = [] \<and>
   price_expiration_for_unconfirmed
     (db_order (snd (fetch_order_prices_if_expired ex_env ex_manager 100 100 ex_order
                       (Some [ex_line]) False ex_world))) = 3700 \<and>
   price_expiration_for_unconfirmed (db_order ex_world) = 100"
  by (simp add: fetch_order_prices_if_expired_def ex_defs money_defs engine_defs commit_defs)


subsection \<open>Discount reconciliation\<close>

lemma recalculate_line_discounts_Inr:
  "recalculate_line_discounts ls = Inr ls' \<Longrightarrow>
     length ls' = length ls \<and>
     (\<forall>i < length ls.
        taxed_add_money (unit_price (ls ! i)) (unit_discount (ls ! i))
          = Inr (undiscounted_unit_price (ls' ! i)) \<and>
        undiscounted_total_price (ls' ! i)
          = (if amount (unit_discount (ls ! i)) \<noteq> 0
             then taxed_mul (undiscounted_unit_price (ls' ! i)) (quantity (ls ! i))
             else total_price (ls ! i)) \<and>
        ls' ! i = (ls ! i)\<lparr>undiscounted_unit_price := undiscounted_unit_price (ls' ! i),
                            undiscounted_total_price := undiscounted_total_price (ls' ! i)\<rparr>)"
proof (induction ls arbitrary: ls')
  case Nil
  then show ?case by simp
next
  case (Cons l ls)
  from Cons.prems obtain l1 ls1 where
    a: "recalculate_line_discount l = Inr l1" and
    b: "recalculate_line_discounts ls = Inr ls1" and
    c: "ls' = l1 # ls1"
    by (auto split: sum.splits)
  from a have d:
    "taxed_add_money (unit_price l) (unit_discount l) = Inr (undiscounted_unit_price l1) \<and>
     undiscounted_total_price l1
          = (if amount (unit_discount l) \<noteq> 0
             then taxed_mul (undiscounted_unit_price l1) (quantity l)
             else total_price l) \<and>
     l1 = l\<lparr>undiscounted_unit_price := undiscounted_unit_price l1,
              undiscounted_total_price := undiscounted_total_price l1\<rparr>"
    by (auto simp: recalculate_line_discount_def money_bool_def split: sum.splits)
  show ?case
    using Cons.IH [OF b] c d
    by (auto simp: nth_Cons split: nat.splits)
qed


lemma recalculate_line_discounts_total:
  "list_all (\<lambda>l. currency (unit_discount l) = currency (net (unit_price l)) \<and>
                 currency (unit_discount l) = currency (gross (unit_price l))) ls \<Longrightarrow>
   \<exists>ls'. recalculate_line_discounts ls = Inr ls'"
  by (induction ls)
     (auto simp: recalculate_line_discount_def taxed_add_money_def money_add_def split: sum.splits)


text \<open>
  C6.  The first pass of the reconciliation sets, for every line,
  \<open>undiscounted_unit_price = unit_price + unit_discount\<close>, and
  \<open>undiscounted_total_price = undiscounted_unit_price * quantity\<close> when the unit discount
  is not zero, and \<open>total_price\<close> otherwise; nothing else of the line changes.  The pass
  returns whenever every unit discount is in the currency of its unit price (the sum
  raises \<^verbatim>\<open>ValueError\<close> otherwise).  The witness is the line of the spec: unit price
  8.00, unit discount 2.00, quantity 3, giving 10.00 and 30.00.
\<close>

theorem recalculate_order_discounts_lines:
  "(list_all (\<lambda>l. currency (unit_discount l) = currency (net (unit_price l)) \<and>
                  currency (unit_discount l) = currency (gross (unit_price l))) ls \<longrightarrow>
      (\<exists>ls'. recalculate_line_discounts ls = Inr ls')) \<and>
   (\<forall>ord' ls' lg'.
      recalculate_order_discounts env ord ls lg = (Inr (ord', ls'), lg') \<longrightarrow>
      recalculate_line_discounts ls = Inr ls' \<and>
      length ls' = length ls \<and>
      (\<forall>i < length ls.
         taxed_add_money (unit_price (ls ! i)) (unit_discount (ls ! i))
           = Inr (undiscounted_unit_price (ls' ! i)) \<and>
         undiscounted_total_price (ls' ! i)
           = (if amount (unit_discount (ls ! i)) \<noteq> 0
              then taxed_mul (undiscounted_unit_price (ls' ! i)) (quantity (ls ! i))
              else total_price (ls ! i)) \<and>
         ls' ! i = (ls ! i)\<lparr>undiscounted_unit_price := undiscounted_unit_price (ls' ! i),
                             undiscounted_total_price := undiscounted_total_price (ls' ! i)\<rparr>))"
proof (rule conjI)
  show "list_all (\<lambda>l. currency (unit_discount l) = currency (net (unit_price l)) \<and>
                  currency (unit_discount l) = currency (gross (unit_price l))) ls \<longrightarrow>
      (\<exists>ls'. recalculate_line_discounts ls = Inr ls')"
    using recalculate_line_discounts_total by blast
next
  show "\<forall>ord' ls' lg'.
      recalculate_order_discounts env ord ls lg = (Inr (ord', ls'), lg') \<longrightarrow>
      recalculate_line_discounts ls = Inr ls' \<and>
      length ls' = length ls \<and>
      (\<forall>i < length ls.
         taxed_add_money (unit_price (ls ! i)) (unit_discount (ls ! i))
           = Inr (undiscounted_unit_price (ls' ! i)) \<and>
         undiscounted_total_price (ls' ! i)
           = (if amount (unit_discount (ls ! i)) \<noteq> 0
              then taxed_mul (undiscounted_unit_price (ls' ! i)) (quantity (ls ! i))
              else total_price (ls ! i)) \<and>
         ls' ! i = (ls ! i)\<lparr>undiscounted_unit_price := undiscounted_unit_price (ls' ! i),
                             undiscounted_total_price := undiscounted_total_price (ls' ! i)\<rparr>)"
  proof (intro allI impI)
    fix ord' ls' lg'
    assume a: "recalculate_order_discounts env ord ls lg = (Inr (ord', ls'), lg')"
    then have b: "recalculate_line_discounts ls = Inr ls'"
      by (auto simp: recalculate_order_discounts_def split: sum.splits prod.splits)
    show "recalculate_line_discounts ls = Inr ls' \<and>
      length ls' = length ls \<and>
      (\<forall>i < length ls.
         taxed_add_money (unit_price (ls ! i)) (unit_discount (ls ! i))
           = Inr (undiscounted_unit_price (ls' ! i)) \<and>
         undiscounted_total_price (ls' ! i)
           = (if amount (unit_discount (ls ! i)) \<noteq> 0
              then taxed_mul (undiscounted_unit_price (ls' ! i)) (quantity (ls ! i))
              else total_price (ls ! i)) \<and>
         ls' ! i = (ls ! i)\<lparr>undiscounted_unit_price := undiscounted_unit_price (ls' ! i),
                             undiscounted_total_price := undiscounted_total_price (ls' ! i)\<rparr>)"
      using b recalculate_line_discounts_Inr [OF b] by blast
  qed
qed


theorem recalculate_order_discounts_lines_witness:
  "unit_price ex_line = usd 8 \<and> unit_discount ex_line = Money 2 ''USD'' \<and>
   quantity ex_line = 3 \<and>
   recalculate_order_discounts ex_env ex_order [ex_line] []
     = (Inr (ex_order, [ex_line\<lparr>undiscounted_unit_price := usd 10,
                                 undiscounted_total_price := usd 30\<rparr>]), []) \<and>
   taxed_add_money (unit_price ex_line) (unit_discount ex_line) = Inr (usd 10) \<and>
   taxed_mul (usd 10) (quantity ex_line) = usd 30"
proof -
  have r: "recalculate_order_discounts ex_env ex_order [ex_line] []
     = (Inr (ex_order, [ex_line\<lparr>undiscounted_unit_price := usd 10,
                                 undiscounted_total_price := usd 30\<rparr>]), [])"
    by (simp add: ex_defs money_defs commit_defs)
  have "taxed_add_money (unit_price ([ex_line] ! 0)) (unit_discount ([ex_line] ! 0))
           = Inr (undiscounted_unit_price ([ex_line\<lparr>undiscounted_unit_price := usd 10,
                                 undiscounted_total_price := usd 30\<rparr>] ! 0))"
    using recalculate_order_discounts_lines [of "[ex_line]" ex_env ex_order "[]"] r
    by simp
  then show ?thesis
    using r by (simp add: ex_defs money_defs)
qed


subsection \<open>Quantization\<close>












subsection \<open>The engine, continued\<close>

lemma recalculate_lines_sum:
  "recalculate_lines m ord ls s lg = (Inr (ls', s'), lg') \<Longrightarrow> sum_total_prices s ls' = Inr s'"
proof (induction ls arbitrary: s lg ls' s' lg')
  case Nil
  then show ?case by auto
next
  case (Cons l ls)
  from Cons.prems obtain l1 lg1 s1 ls1 where
    a: "recalculate_line m ord l lg = (Inr l1, lg1)" and
    b: "taxed_add s (total_price l1) = Inr s1" and
    c: "recalculate_lines m ord ls s1 lg1 = (Inr (ls1, s'), lg')" and
    d: "ls' = l1 # ls1"
    by (auto split: prod.splits sum.splits)
  show ?case using Cons.IH [OF c] b d by simp
qed

lemma sum_total_prices_Inr:
  "sum_total_prices s ls = Inr s' \<Longrightarrow>
     amount (net s') = amount (net s) + sum_list (map (\<lambda>l. amount (net (total_price l))) ls) \<and>
     amount (gross s') = amount (gross s) + sum_list (map (\<lambda>l. amount (gross (total_price l))) ls) \<and>
     currency (net s') = currency (net s) \<and> currency (gross s') = currency (gross s) \<and>
     list_all (\<lambda>l. currency (net (total_price l)) = currency (net s) \<and>
                    currency (gross (total_price l)) = currency (gross s)) ls"
proof (induction ls arbitrary: s)
  case Nil
  then show ?case by simp
next
  case (Cons l ls)
  from Cons.prems obtain s1 where
    a: "taxed_add s (total_price l) = Inr s1" and b: "sum_total_prices s1 ls = Inr s'"
    by (auto split: sum.splits)
  show ?case using Cons.IH [OF b] taxed_add_Inr [OF a] by (simp add: algebra_simps)
qed

lemma order_total_invariant_amounts:
  "order_total_invariant ord ls \<Longrightarrow>
     amount (net (total ord))
       = amount (net (shipping_price ord)) + sum_list (map (\<lambda>l. amount (net (total_price l))) ls) \<and>
     amount (gross (total ord))
       = amount (gross (shipping_price ord)) + sum_list (map (\<lambda>l. amount (gross (total_price l))) ls) \<and>
     currency (net (total ord)) = order_currency ord \<and>
     currency (gross (total ord)) = order_currency ord \<and>
     currency (net (shipping_price ord)) = order_currency ord \<and>
     currency (gross (shipping_price ord)) = order_currency ord \<and>
     list_all (\<lambda>l. currency (net (total_price l)) = order_currency ord \<and>
                    currency (gross (total_price l)) = order_currency ord) ls"
proof -
  assume "order_total_invariant ord ls"
  then obtain s where
    a: "sum_total_prices (zero_taxed_money (order_currency ord)) ls = Inr s" and
    b: "taxed_add (shipping_price ord) s = Inr (total ord)"
    by (auto simp: order_total_invariant_def split: sum.splits)
  show ?thesis
    using sum_total_prices_Inr [OF a] taxed_add_Inr [OF b]
    by (simp add: zero_taxed_money_def TaxedMoney_def Money_def)
qed

lemma recalculate_shipping_try_frame:
  "recalculate_shipping_try m ord lg = (exc, ord', lg') \<Longrightarrow>
     status ord' = status ord \<and> order_currency ord' = order_currency ord \<and>
     price_expiration_for_unconfirmed ord' = price_expiration_for_unconfirmed ord \<and>
     discounts ord' = discounts ord \<and> undiscounted_total ord' = undiscounted_total ord \<and>
     total ord' = total ord"
  by (auto simp: recalculate_shipping_try_def Let_def split: sum.splits)

lemma recalculate_order_prices_Inr:
  assumes "recalculate_order_prices m ord ls lg = (Inr (ord', ls'), lg')"
  shows "status ord' = status ord \<and> order_currency ord' = order_currency ord \<and>
     price_expiration_for_unconfirmed ord' = price_expiration_for_unconfirmed ord \<and>
     discounts ord' = discounts ord \<and> undiscounted_total ord' = undiscounted_total ord \<and>
     length ls' = length ls \<and> map line_id ls' = map line_id ls \<and>
     order_total_invariant ord' ls'"
proof -
  from assms obtain s lg1 exc ord1 t where
    a: "recalculate_lines m ord ls (zero_taxed_money (order_currency ord)) lg = (Inr (ls', s), lg1)" and
    b: "recalculate_shipping_try m ord lg1 = (exc, ord1, lg')" and
    c: "taxed_add (shipping_price ord1) s = Inr t" and
    d: "ord' = ord1\<lparr>total := t\<rparr>"
    by (auto simp: recalculate_order_prices_def split: prod.splits sum.splits option.splits)
  show ?thesis
    using recalculate_lines_Inr [OF a] recalculate_lines_sum [OF a]
      recalculate_shipping_try_frame [OF b] c d
    by (simp add: order_total_invariant_def)
qed

lemma recalculate_order_prices_not_TaxError:
  "fst (recalculate_order_prices m ord ls lg) \<noteq> Inl TaxError"
proof -
  have a: "\<And>x. recalculate_lines m ord ls (zero_taxed_money (order_currency ord)) lg
              \<noteq> (Inl TaxError, x)"
    using recalculate_lines_not_TaxError [of m ord ls "zero_taxed_money (order_currency ord)" lg]
    by (metis fst_conv)
  show ?thesis
    using a except_TaxError_not_TaxError
    by (auto simp: recalculate_order_prices_def split: prod.splits sum.splits option.splits
          dest: taxed_add_Inl)
qed

subsection \<open>The tax data overlay\<close>

lemma fold_tax_lines_None:
  "fold (\<lambda>l d. d(tl_id l \<mapsto> l)) (xs :: tax_line_data list) d0 k = None \<longleftrightarrow> d0 k = None \<and> k \<notin> tl_id ` set xs"
  by (induction xs arbitrary: d0) auto

lemma fold_tax_lines_Some:
  "fold (\<lambda>l d. d(tl_id l \<mapsto> l)) (xs :: tax_line_data list) d0 k = Some tx \<Longrightarrow>
     d0 k = Some tx \<or> (tx \<in> set xs \<and> tl_id tx = k)"
proof (induction xs arbitrary: d0)
  case Nil
  then show ?case by simp
next
  case (Cons a xs)
  from Cons.prems have "fold (\<lambda>l d. d(tl_id l \<mapsto> l)) xs (d0(tl_id a \<mapsto> a)) k = Some tx"
    by (simp only: fold_simps)
  from Cons.IH [OF this]
  have "(d0(tl_id a \<mapsto> a)) k = Some tx \<or> (tx \<in> set xs \<and> tl_id tx = k)" .
  then show ?case by (cases "tl_id a = k") auto
qed

lemma tax_lines_dict_None: "tax_lines_dict td k = None \<longleftrightarrow> k \<notin> tl_id ` set (td_lines td)"
  by (simp add: tax_lines_dict_def fold_tax_lines_None)

lemma tax_lines_dict_Some:
  "tax_lines_dict td k = Some tx \<Longrightarrow> tx \<in> set (td_lines td) \<and> tl_id tx = k"
  using fold_tax_lines_Some [of "td_lines td" Map.empty k tx] by (simp add: tax_lines_dict_def)

lemma apply_tax_lines_Inr:
  "apply_tax_lines ord d ls = Inr ls' \<Longrightarrow>
     length ls' = length ls \<and>
     (\<forall>i < length ls. \<exists>tx.
        d (line_id (ls ! i)) = Some tx \<and>
        ls' ! i = (ls ! i)
          \<lparr>unit_price := create_taxed_money ord (unit_net_amount tx) (unit_gross_amount tx),
           total_price := create_taxed_money ord (tl_total_net_amount tx) (tl_total_gross_amount tx),
           tax_rate := tl_tax_rate tx\<rparr>)"
proof (induction ls arbitrary: ls')
  case Nil
  then show ?case by simp
next
  case (Cons l ls)
  from Cons.prems obtain tx ls1 where
    a: "d (line_id l) = Some tx" and
    b: "apply_tax_lines ord d ls = Inr ls1" and
    c: "ls' = l\<lparr>unit_price := create_taxed_money ord (unit_net_amount tx) (unit_gross_amount tx),
           total_price := create_taxed_money ord (tl_total_net_amount tx) (tl_total_gross_amount tx),
           tax_rate := tl_tax_rate tx\<rparr> # ls1"
    by (auto split: option.splits sum.splits)
  show ?case
    using Cons.IH [OF b] a c by (auto simp: nth_Cons split: nat.splits)
qed

lemma apply_tax_lines_Inl: "apply_tax_lines ord d ls = Inl e \<Longrightarrow> e = KeyError"
  by (induction ls) (auto split: option.splits sum.splits)

lemma apply_tax_lines_missing:
  "\<exists>l \<in> set ls. d (line_id l) = None \<Longrightarrow> apply_tax_lines ord d ls = Inl KeyError"
proof (induction ls)
  case Nil
  then show ?case by simp
next
  case (Cons l ls)
  show ?case
  proof (cases "d (line_id l)")
    case None
    then show ?thesis by simp
  next
    case (Some tx)
    with Cons.prems have "\<exists>l \<in> set ls. d (line_id l) = None" by auto
    from Cons.IH [OF this] Some show ?thesis by simp
  qed
qed

lemma apply_tax_lines_total:
  "\<forall>l \<in> set ls. d (line_id l) \<noteq> None \<Longrightarrow> \<exists>ls'. apply_tax_lines ord d ls = Inr ls'"
  by (induction ls) auto

lemma apply_tax_data_Inl: "apply_tax_data ord ls td = Inl e \<Longrightarrow> e = KeyError"
  by (auto simp: apply_tax_data_def Let_def split: sum.splits dest: apply_tax_lines_Inl)

lemma apply_tax_data_missing:
  "\<exists>l \<in> set ls. line_id l \<notin> tl_id ` set (td_lines td) \<Longrightarrow>
     apply_tax_data ord ls td = Inl KeyError"
proof -
  assume "\<exists>l \<in> set ls. line_id l \<notin> tl_id ` set (td_lines td)"
  then have "\<exists>l \<in> set ls. tax_lines_dict td (line_id l) = None"
    by (simp add: tax_lines_dict_None)
  from apply_tax_lines_missing [OF this] show ?thesis
    by (simp add: apply_tax_data_def Let_def)
qed

lemma apply_tax_data_Inr:
  assumes "apply_tax_data ord ls td = Inr (ord', ls')"
  shows "ord' = ord\<lparr>total := create_taxed_money ord (total_net_amount td) (total_gross_amount td),
                     shipping_price := create_taxed_money ord (shipping_price_net_amount td)
                                         (shipping_price_gross_amount td),
                     shipping_tax_rate := td_shipping_tax_rate td\<rparr> \<and>
         length ls' = length ls \<and>
         (\<forall>i < length ls. \<exists>tx.
            tax_lines_dict td (line_id (ls ! i)) = Some tx \<and>
            tx \<in> set (td_lines td) \<and> tl_id tx = line_id (ls ! i) \<and>
            ls' ! i = (ls ! i)
              \<lparr>unit_price := create_taxed_money ord (unit_net_amount tx) (unit_gross_amount tx),
               total_price := create_taxed_money ord (tl_total_net_amount tx)
                                (tl_total_gross_amount tx),
               tax_rate := tl_tax_rate tx\<rparr>)"
proof -
  let ?ord1 = "ord\<lparr>total := create_taxed_money ord (total_net_amount td) (total_gross_amount td),
                     shipping_price := create_taxed_money ord (shipping_price_net_amount td)
                                         (shipping_price_gross_amount td),
                     shipping_tax_rate := td_shipping_tax_rate td\<rparr>"
  from assms have a: "apply_tax_lines ?ord1 (tax_lines_dict td) ls = Inr ls'" and b: "ord' = ?ord1"
    by (auto simp: apply_tax_data_def Let_def split: sum.splits)
  have c: "\<And>n g. create_taxed_money ?ord1 n g = create_taxed_money ord n g"
    by (simp add: create_taxed_money_def)
  have d: "length ls' = length ls"
    using apply_tax_lines_Inr [OF a] by simp
  have e: "\<exists>tx. tax_lines_dict td (line_id (ls ! i)) = Some tx \<and>
            tx \<in> set (td_lines td) \<and> tl_id tx = line_id (ls ! i) \<and>
            ls' ! i = (ls ! i)
              \<lparr>unit_price := create_taxed_money ord (unit_net_amount tx) (unit_gross_amount tx),
               total_price := create_taxed_money ord (tl_total_net_amount tx)
                                (tl_total_gross_amount tx),
               tax_rate := tl_tax_rate tx\<rparr>" if "i < length ls" for i
  proof -
    from apply_tax_lines_Inr [OF a] that obtain tx where
      f: "tax_lines_dict td (line_id (ls ! i)) = Some tx" and
      g: "ls' ! i = (ls ! i)
          \<lparr>unit_price := create_taxed_money ?ord1 (unit_net_amount tx) (unit_gross_amount tx),
           total_price := create_taxed_money ?ord1 (tl_total_net_amount tx) (tl_total_gross_amount tx),
           tax_rate := tl_tax_rate tx\<rparr>"
      by blast
    show ?thesis
      using f g tax_lines_dict_Some [OF f] unfolding c by blast
  qed
  show ?thesis using b d e by blast
qed

subsection \<open>Reconciliation and commit\<close>

lemma update_order_discounts_frame:
  "update_order_discounts env ord ds lg = (Inr ord', lg') \<Longrightarrow>
     status ord' = status ord \<and> order_currency ord' = order_currency ord \<and>
     price_expiration_for_unconfirmed ord' = price_expiration_for_unconfirmed ord \<and>
     shipping_price ord' = shipping_price ord \<and>
     shipping_tax_rate ord' = shipping_tax_rate ord \<and> discounts ord' = discounts ord"
proof (induction ds arbitrary: ord lg)
  case Nil
  then show ?case by simp
next
  case (Cons d ds)
  from Cons.prems obtain ord1 where
    a: "update_order_discount_for_order env ord d = Inr ord1" and
    b: "update_order_discounts env ord1 ds (lg @ [UpdateOrderDiscount (discount_id d)])
          = (Inr ord', lg')"
    by (auto split: sum.splits)
  from a have "status ord1 = status ord \<and> order_currency ord1 = order_currency ord \<and>
     price_expiration_for_unconfirmed ord1 = price_expiration_for_unconfirmed ord \<and>
     shipping_price ord1 = shipping_price ord \<and>
     shipping_tax_rate ord1 = shipping_tax_rate ord \<and> discounts ord1 = discounts ord"
    by (auto simp: update_order_discount_for_order_def split: sum.splits)
  with Cons.IH [OF b] show ?case by simp
qed

lemma recalculate_order_discounts_Inr:
  assumes "recalculate_order_discounts env ord ls lg = (Inr (ord', ls'), lg')"
  shows "status ord' = status ord \<and> order_currency ord' = order_currency ord \<and>
     price_expiration_for_unconfirmed ord' = price_expiration_for_unconfirmed ord \<and>
     shipping_price ord' = shipping_price ord \<and>
     shipping_tax_rate ord' = shipping_tax_rate ord \<and> discounts ord' = discounts ord \<and>
     (filter (\<lambda>d. discount_type d = MANUAL) (discounts ord) = [] \<longrightarrow> ord' = ord \<and> lg' = lg) \<and>
     recalculate_line_discounts ls = Inr ls'"
  using assms
  by (auto simp: recalculate_order_discounts_def split: sum.splits prod.splits
        dest: update_order_discounts_frame)

lemma recalculate_line_discounts_frame:
  assumes "recalculate_line_discounts ls = Inr ls'"
  shows "length ls' = length ls \<and> map line_id ls' = map line_id ls \<and>
         map unit_price ls' = map unit_price ls \<and> map total_price ls' = map total_price ls \<and>
         map tax_rate ls' = map tax_rate ls"
proof -
  have a: "length ls' = length ls" and
    b: "\<And>i. i < length ls \<Longrightarrow>
          ls' ! i = (ls ! i)\<lparr>undiscounted_unit_price := undiscounted_unit_price (ls' ! i),
                             undiscounted_total_price := undiscounted_total_price (ls' ! i)\<rparr>"
    using recalculate_line_discounts_Inr [OF assms] by blast+
  have "\<And>i. i < length ls \<Longrightarrow> line_id (ls' ! i) = line_id (ls ! i) \<and>
          unit_price (ls' ! i) = unit_price (ls ! i) \<and>
          total_price (ls' ! i) = total_price (ls ! i) \<and> tax_rate (ls' ! i) = tax_rate (ls ! i)"
  proof -
    fix i assume "i < length ls"
    from b [OF this] show "line_id (ls' ! i) = line_id (ls ! i) \<and>
          unit_price (ls' ! i) = unit_price (ls ! i) \<and>
          total_price (ls' ! i) = total_price (ls ! i) \<and> tax_rate (ls' ! i) = tax_rate (ls ! i)"
      by (metis order_line.select_convs(1,4,5,9) order_line.surjective
            order_line.update_convs(6,7))
  qed
  with a show ?thesis by (simp add: list_eq_iff_nth_eq)
qed

lemma sum_total_prices_cong:
  "map total_price ls' = map total_price ls \<Longrightarrow> sum_total_prices s ls' = sum_total_prices s ls"
proof (induction ls arbitrary: ls' s)
  case Nil
  then show ?case by simp
next
  case (Cons l ls)
  from Cons.prems obtain l1 ls1 where
    a: "ls' = l1 # ls1" and b: "total_price l1 = total_price l" and
    c: "map total_price ls1 = map total_price ls"
    by (cases ls') auto
  have d: "sum_total_prices t ls1 = sum_total_prices t ls" for t
    by (rule Cons.IH [OF c])
  show ?case
    unfolding a sum_total_prices.simps b
    by (cases "taxed_add s (total_price l)") (simp_all add: d)
qed

subsection \<open>The orchestrator\<close>

lemma transaction_atomic_Inr:
  "transaction_atomic body w = (Inr x, w') \<Longrightarrow> body w = (Inr x, w')"
  by (auto simp: transaction_atomic_def split: prod.splits sum.splits)

lemma transaction_atomic_Inl:
  "transaction_atomic body w = (Inl e, w') \<Longrightarrow>
     (\<exists>w''. body w = (Inl e, w'') \<and> calls w' = calls w'') \<and>
     db_order w' = db_order w \<and> db_lines w' = db_lines w"
  by (auto simp: transaction_atomic_def split: prod.splits sum.splits)

lemma apply_and_save_Inr:
  "apply_and_save env ord ls tax_data w = (Inr (ord', lines'), w') \<Longrightarrow>
   \<exists>ord3 lines3 lines4 lg2.
     (case tax_data of None \<Rightarrow> Inr (ord, ls) | Some td \<Rightarrow> apply_tax_data ord ls td)
       = Inr (ord3, lines3) \<and>
     recalculate_order_discounts env ord3 lines3 (calls w) = (Inr (ord', lines4), lg2) \<and>
     lines' = Some lines4 \<and>
     w' = lines_bulk_update lines4 (order_save ord' (w\<lparr>calls := lg2\<rparr>))"
  unfolding apply_and_save_def
  by (cases "case tax_data of None \<Rightarrow> Inr (ord, ls) | Some td \<Rightarrow> apply_tax_data ord ls td")
     (auto split: prod.splits sum.splits)

text \<open>The stale branch, with the two tests of the gate decided.\<close>

lemma fetch_stale:
  assumes "status ord \<in> set (ORDER_EDITABLE_STATUS env)"
    and "force_update \<or> \<not> now_check < price_expiration_for_unconfirmed ord"
  shows "fetch_order_prices_if_expired env m now_check now_refresh ord lines force_update w =
     (case recalculate_order_prices m
             (ord\<lparr>price_expiration_for_unconfirmed := now_refresh + ORDER_PRICES_TTL env\<rparr>)
             (case lines of None \<Rightarrow> db_lines w | Some ls \<Rightarrow> ls) (calls w) of
        (Inl e, lg1) \<Rightarrow> (Inl e, w\<lparr>calls := lg1\<rparr>)
      | (Inr (ord2, lines2), lg1) \<Rightarrow>
          (case get_taxes_for_order m ord2 of
             Inl e \<Rightarrow> (Inl e, w\<lparr>calls := lg1 @ [GetTaxesForOrder]\<rparr>)
           | Inr tax_data \<Rightarrow>
               transaction_atomic (apply_and_save env ord2 lines2 tax_data)
                 (w\<lparr>calls := lg1 @ [GetTaxesForOrder]\<rparr>)))"
proof -
  have "\<not> (\<not> force_update \<and> now_check < price_expiration_for_unconfirmed ord)"
    using assms(2) by blast
  then show ?thesis
    using assms(1) by (simp only: fetch_order_prices_if_expired_def Let_def if_False not_not if_True simp_thms)
qed

text \<open>What a stale pass that returns is made of.\<close>

lemma fetch_stale_Inr:
  assumes "status ord \<in> set (ORDER_EDITABLE_STATUS env)"
    and "force_update \<or> \<not> now_check < price_expiration_for_unconfirmed ord"
    and "fetch_order_prices_if_expired env m now_check now_refresh ord lines force_update w
           = (Inr (ord', lines'), w')"
  obtains ord2 lines2 lg1 tax_data ord3 lines3 lines4 lg2 where
    "recalculate_order_prices m
       (ord\<lparr>price_expiration_for_unconfirmed := now_refresh + ORDER_PRICES_TTL env\<rparr>)
       (case lines of None \<Rightarrow> db_lines w | Some ls \<Rightarrow> ls) (calls w)
       = (Inr (ord2, lines2), lg1)"
    "get_taxes_for_order m ord2 = Inr tax_data"
    "(case tax_data of None \<Rightarrow> Inr (ord2, lines2) | Some td \<Rightarrow> apply_tax_data ord2 lines2 td)
       = Inr (ord3, lines3)"
    "recalculate_order_discounts env ord3 lines3 (lg1 @ [GetTaxesForOrder])
       = (Inr (ord', lines4), lg2)"
    "lines' = Some lines4"
    "w' = lines_bulk_update lines4 (order_save ord' (w\<lparr>calls := lg2\<rparr>))"
proof -
  let ?eng = "recalculate_order_prices m
       (ord\<lparr>price_expiration_for_unconfirmed := now_refresh + ORDER_PRICES_TTL env\<rparr>)
       (case lines of None \<Rightarrow> db_lines w | Some ls \<Rightarrow> ls) (calls w)"
  note st = fetch_stale [OF assms(1,2), of m now_refresh lines w]
  obtain r lg1 where eng: "?eng = (r, lg1)" by (cases ?eng)
  show ?thesis
  proof (cases r)
    case (Inl e)
    with st eng assms(3) show ?thesis by simp
  next
    case (Inr p)
    obtain ord2 lines2 where p: "p = (ord2, lines2)" by (cases p)
    show ?thesis
    proof (cases "get_taxes_for_order m ord2")
      case (Inl e)
      with st eng Inr p assms(3) show ?thesis by simp
    next
      case tx: (Inr tax_data)
      from st eng Inr p tx assms(3)
      have "transaction_atomic (apply_and_save env ord2 lines2 tax_data)
                 (w\<lparr>calls := lg1 @ [GetTaxesForOrder]\<rparr>) = (Inr (ord', lines'), w')"
        by simp
      from apply_and_save_Inr [OF transaction_atomic_Inr [OF this]]
      obtain ord3 lines3 lines4 lg2 where
        "(case tax_data of None \<Rightarrow> Inr (ord2, lines2) | Some td \<Rightarrow> apply_tax_data ord2 lines2 td)
           = Inr (ord3, lines3)"
        "recalculate_order_discounts env ord3 lines3 (lg1 @ [GetTaxesForOrder])
           = (Inr (ord', lines4), lg2)"
        "lines' = Some lines4"
        "w' = lines_bulk_update lines4 (order_save ord' (w\<lparr>calls := lg2\<rparr>))"
        by auto
      with that eng Inr p tx show ?thesis by simp
    qed
  qed
qed

text \<open>A pass that raises leaves the stored order and lines as they were.\<close>

lemma fetch_Inl_db_unchanged:
  assumes "fetch_order_prices_if_expired env m now_check now_refresh ord lines force_update w
     = (Inl e, w')"
  shows "db_order w' = db_order w \<and> db_lines w' = db_lines w"
proof (cases "status ord \<in> set (ORDER_EDITABLE_STATUS env) \<and>
              (force_update \<or> \<not> now_check < price_expiration_for_unconfirmed ord)")
  case False
  with assms show ?thesis
    by (auto simp: fetch_order_prices_if_expired_def split: if_splits)
next
  case True
  let ?eng = "recalculate_order_prices m
       (ord\<lparr>price_expiration_for_unconfirmed := now_refresh + ORDER_PRICES_TTL env\<rparr>)
       (case lines of None \<Rightarrow> db_lines w | Some ls \<Rightarrow> ls) (calls w)"
  from True have st1: "status ord \<in> set (ORDER_EDITABLE_STATUS env)"
    and st2: "force_update \<or> \<not> now_check < price_expiration_for_unconfirmed ord" by blast+
  note st = fetch_stale [OF st1 st2, of m now_refresh lines w]
  obtain r lg1 where eng: "?eng = (r, lg1)" by (cases ?eng)
  show ?thesis
  proof (cases r)
    case (Inl e')
    with st eng assms show ?thesis by auto
  next
    case (Inr p)
    obtain ord2 lines2 where p: "p = (ord2, lines2)" by (cases p)
    show ?thesis
    proof (cases "get_taxes_for_order m ord2")
      case (Inl e')
      with st eng Inr p assms show ?thesis by auto
    next
      case tx: (Inr tax_data)
      from st eng Inr p tx assms
      have "transaction_atomic (apply_and_save env ord2 lines2 tax_data)
                 (w\<lparr>calls := lg1 @ [GetTaxesForOrder]\<rparr>) = (Inl e, w')"
        by simp
      from transaction_atomic_Inl [OF this] show ?thesis by simp
    qed
  qed
qed

lemma fetch_stale_engine_Inl:
  assumes "status ord \<in> set (ORDER_EDITABLE_STATUS env)"
    and "force_update \<or> \<not> now_check < price_expiration_for_unconfirmed ord"
    and "recalculate_order_prices m
       (ord\<lparr>price_expiration_for_unconfirmed := now_refresh + ORDER_PRICES_TTL env\<rparr>)
       (case lines of None \<Rightarrow> db_lines w | Some ls \<Rightarrow> ls) (calls w) = (Inl e, lg)"
  shows "fetch_order_prices_if_expired env m now_check now_refresh ord lines force_update w
           = (Inl e, w\<lparr>calls := lg\<rparr>)"
  using fetch_stale [OF assms(1,2), of m now_refresh lines w] assms(3) by simp

subsection \<open>The order total after a pass\<close>

lemma order_save_fields:
  "total (db_order (lines_bulk_update ls (order_save ord w))) = total ord \<and>
   undiscounted_total (db_order (lines_bulk_update ls (order_save ord w))) = undiscounted_total ord \<and>
   shipping_price (db_order (lines_bulk_update ls (order_save ord w))) = shipping_price ord \<and>
   shipping_tax_rate (db_order (lines_bulk_update ls (order_save ord w))) = shipping_tax_rate ord \<and>
   price_expiration_for_unconfirmed (db_order (lines_bulk_update ls (order_save ord w)))
     = price_expiration_for_unconfirmed ord"
  by (simp add: order_save_def lines_bulk_update_def)


lemma recalculate_order_discounts_update:
  assumes "recalculate_order_discounts env ord ls lg = (Inr (ord', ls'), lg')"
  shows "update_order_discounts env ord
           (filter (\<lambda>d. discount_type d = MANUAL) (discounts ord)) lg = (Inr ord', lg')"
  using assms
  by (auto simp: recalculate_order_discounts_def split: sum.splits prod.splits)

lemma order_total_invariant_cong:
  "map total_price ls' = map total_price ls \<Longrightarrow>
   order_total_invariant ord ls' = order_total_invariant ord ls"
  using sum_total_prices_cong [of ls' ls "zero_taxed_money (order_currency ord)"]
  by (simp add: order_total_invariant_def)

lemma apply_tax_lines_sum:
  "apply_tax_lines ord (tax_lines_dict td) ls = Inr ls' \<Longrightarrow>
   currency (net s) = order_currency ord \<Longrightarrow> currency (gross s) = order_currency ord \<Longrightarrow>
   sum_total_prices s ls'
     = Inr (TaxedMoney
              (Money (amount (net s) + sum_list (map (\<lambda>l. fst (tax_line_total td l)) ls))
                 (order_currency ord))
              (Money (amount (gross s) + sum_list (map (\<lambda>l. snd (tax_line_total td l)) ls))
                 (order_currency ord)))"
proof (induction ls arbitrary: s ls')
  case Nil
  then show ?case
    by (cases s, cases "net s", cases "gross s") (simp add: TaxedMoney_def Money_def)
next
  case (Cons l ls)
  from Cons.prems(1) obtain tx ls1 where
    a: "tax_lines_dict td (line_id l) = Some tx" and
    b: "apply_tax_lines ord (tax_lines_dict td) ls = Inr ls1" and
    c: "ls' = l\<lparr>unit_price := create_taxed_money ord (unit_net_amount tx) (unit_gross_amount tx),
           total_price := create_taxed_money ord (tl_total_net_amount tx) (tl_total_gross_amount tx),
           tax_rate := tl_tax_rate tx\<rparr> # ls1"
    by (auto split: option.splits sum.splits)
  let ?s1 = "TaxedMoney (Money (amount (net s) + tl_total_net_amount tx) (order_currency ord))
               (Money (amount (gross s) + tl_total_gross_amount tx) (order_currency ord))"
  have d: "taxed_add s (create_taxed_money ord (tl_total_net_amount tx) (tl_total_gross_amount tx))
             = Inr ?s1"
    using Cons.prems(2,3)
    by (simp add: taxed_add_def money_add_def create_taxed_money_def TaxedMoney_def Money_def)
  have e: "currency (net ?s1) = order_currency ord" "currency (gross ?s1) = order_currency ord"
    by (simp_all add: TaxedMoney_def Money_def)
  have f: "amount (net ?s1) = amount (net s) + tl_total_net_amount tx"
    "amount (gross ?s1) = amount (gross s) + tl_total_gross_amount tx"
    by (simp_all add: TaxedMoney_def Money_def)
  have g: "fst (tax_line_total td l) = tl_total_net_amount tx"
    "snd (tax_line_total td l) = tl_total_gross_amount tx"
    using a by (simp_all add: tax_line_total_def)
  have "sum_total_prices s ls' = sum_total_prices ?s1 ls1"
    unfolding c using d by simp
  also have "\<dots> = Inr (TaxedMoney
              (Money (amount (net ?s1) + sum_list (map (\<lambda>l. fst (tax_line_total td l)) ls))
                 (order_currency ord))
              (Money (amount (gross ?s1) + sum_list (map (\<lambda>l. snd (tax_line_total td l)) ls))
                 (order_currency ord)))"
    by (rule Cons.IH [OF b e])
  finally show ?case
    unfolding f by (simp add: g add.assoc)
qed

lemma apply_tax_data_invariant_iff:
  assumes "apply_tax_data ord ls td = Inr (ord', ls')"
  shows "order_total_invariant ord' ls' \<longleftrightarrow> tax_data_consistent td ls"
proof -
  let ?ord1 = "ord\<lparr>total := create_taxed_money ord (total_net_amount td) (total_gross_amount td),
                     shipping_price := create_taxed_money ord (shipping_price_net_amount td)
                                         (shipping_price_gross_amount td),
                     shipping_tax_rate := td_shipping_tax_rate td\<rparr>"
  from assms have a: "apply_tax_lines ?ord1 (tax_lines_dict td) ls = Inr ls'" and b: "ord' = ?ord1"
    by (auto simp: apply_tax_data_def Let_def split: sum.splits)
  have z: "currency (net (zero_taxed_money (order_currency ?ord1))) = order_currency ?ord1"
    "currency (gross (zero_taxed_money (order_currency ?ord1))) = order_currency ?ord1"
    by (simp_all add: zero_taxed_money_def TaxedMoney_def Money_def)
  note s = apply_tax_lines_sum [OF a z]
  show ?thesis
    unfolding b order_total_invariant_def s
    by (auto simp: tax_data_consistent_def create_taxed_money_def taxed_add_def money_add_def
          zero_taxed_money_def TaxedMoney_def Money_def)
qed

lemma tax_data_consistent_ids:
  assumes "map line_id ls' = map line_id ls"
  shows "tax_data_consistent td ls' = tax_data_consistent td ls"
proof -
  let ?g = "\<lambda>i. case tax_lines_dict td i of
                   None \<Rightarrow> (0 :: rat, 0 :: rat)
                 | Some tax_line \<Rightarrow> (tl_total_net_amount tax_line, tl_total_gross_amount tax_line)"
  have a: "map (\<lambda>l. fst (tax_line_total td l)) xs = map (\<lambda>i. fst (?g i)) (map line_id xs)"
    "map (\<lambda>l. snd (tax_line_total td l)) xs = map (\<lambda>i. snd (?g i)) (map line_id xs)" for xs
    by (simp_all add: tax_line_total_def comp_def)
  show ?thesis
    unfolding tax_data_consistent_def a assms ..
qed

text \<open>
  C1 (as amended).  After a pass of \<^verbatim>\<open>fetch_order_prices_if_expired\<close> that enters the
  stale branch and commits, the returned order is what applying the manual discounts of
  the order in turn gives from an order \<open>base\<close> that has the returned shipping price.
  For \<open>base\<close> and the returned lines the total is the shipping price plus the sum of
  the lines' total prices, exactly and in the currency of the order, when the tax
  capability returned no data; when it returned tax data, this holds exactly when the
  figures of the tax data add up for the lines being priced.  An order without manual
  discounts is returned as \<open>base\<close>, so its returned total satisfies the equation under
  the same conditions.  The returned total and shipping price are the stored ones.
\<close>

theorem fetch_total_invariant:
  assumes "status ord \<in> set (ORDER_EDITABLE_STATUS env)"
    and "force_update \<or> \<not> now_check < price_expiration_for_unconfirmed ord"
    and "fetch_order_prices_if_expired env m now_check now_refresh ord lines force_update w
           = (Inr (ord', lines'), w')"
  shows "\<exists>base ls lg lg'.
     lines' = Some ls \<and>
     update_order_discounts env base
       (filter (\<lambda>d. discount_type d = MANUAL) (discounts ord)) lg = (Inr ord', lg') \<and>
     shipping_price base = shipping_price ord' \<and>
     ((\<forall>ord2. get_taxes_for_order m ord2 = Inr None) \<longrightarrow> order_total_invariant base ls) \<and>
     (\<forall>td. (\<forall>ord2. get_taxes_for_order m ord2 = Inr (Some td)) \<longrightarrow>
        (order_total_invariant base ls \<longleftrightarrow>
         tax_data_consistent td (case lines of None \<Rightarrow> db_lines w | Some xs \<Rightarrow> xs))) \<and>
     (filter (\<lambda>d. discount_type d = MANUAL) (discounts ord) = [] \<longrightarrow> ord' = base) \<and>
     (filter (\<lambda>d. discount_type d = MANUAL) (discounts ord) = [] \<and>
      (\<forall>ord2. get_taxes_for_order m ord2 = Inr None) \<longrightarrow>
        order_total_invariant ord' ls \<and>
        amount (net (total ord'))
          = amount (net (shipping_price ord'))
            + sum_list (map (\<lambda>l. amount (net (total_price l))) ls) \<and>
        amount (gross (total ord'))
          = amount (gross (shipping_price ord'))
            + sum_list (map (\<lambda>l. amount (gross (total_price l))) ls) \<and>
        currency (net (total ord')) = order_currency ord' \<and>
        currency (gross (total ord')) = order_currency ord') \<and>
     total (db_order w') = total ord' \<and> shipping_price (db_order w') = shipping_price ord'"
proof -
  let ?lines1 = "(case lines of None \<Rightarrow> db_lines w | Some ls \<Rightarrow> ls)"
  let ?man = "filter (\<lambda>d. discount_type d = MANUAL) (discounts ord)"
  from assms obtain ord2 lines2 lg1 tax_data ord3 lines3 lines4 lg2 where
    eng: "recalculate_order_prices m
       (ord\<lparr>price_expiration_for_unconfirmed := now_refresh + ORDER_PRICES_TTL env\<rparr>)
       ?lines1 (calls w) = (Inr (ord2, lines2), lg1)" and
    tx: "get_taxes_for_order m ord2 = Inr tax_data" and
    ov: "(case tax_data of None \<Rightarrow> Inr (ord2, lines2) | Some td \<Rightarrow> apply_tax_data ord2 lines2 td)
       = Inr (ord3, lines3)" and
    dc: "recalculate_order_discounts env ord3 lines3 (lg1 @ [GetTaxesForOrder])
       = (Inr (ord', lines4), lg2)" and
    ls: "lines' = Some lines4" and
    w': "w' = lines_bulk_update lines4 (order_save ord' (w\<lparr>calls := lg2\<rparr>))"
    by (rule fetch_stale_Inr)
  from recalculate_order_prices_Inr [OF eng] have
    d2: "discounts ord2 = discounts ord" and inv2: "order_total_invariant ord2 lines2" and
    id2: "map line_id lines2 = map line_id ?lines1"
    by simp_all
  have d3: "discounts ord3 = discounts ord2"
  proof (cases tax_data)
    case None
    with ov show ?thesis by simp
  next
    case (Some td)
    with ov have "apply_tax_data ord2 lines2 td = Inr (ord3, lines3)" by simp
    from apply_tax_data_Inr [OF this] show ?thesis by simp
  qed
  with d2 have d3': "discounts ord3 = discounts ord" by simp
  note dcf = recalculate_order_discounts_Inr [OF dc]
  from dcf have l4: "recalculate_line_discounts lines3 = Inr lines4" by simp
  from recalculate_line_discounts_frame [OF l4] have
    "map total_price lines4 = map total_price lines3" by simp
  note cg = order_total_invariant_cong [OF this]
  have p2: "update_order_discounts env ord3 ?man (lg1 @ [GetTaxesForOrder]) = (Inr ord', lg2)"
    using recalculate_order_discounts_update [OF dc] unfolding d3' .
  have p3: "shipping_price ord3 = shipping_price ord'" using dcf by simp
  have p4: "order_total_invariant ord3 lines4"
    if nt: "\<forall>ord2. get_taxes_for_order m ord2 = Inr None"
  proof -
    from tx nt have "tax_data = None" by simp
    with ov have "ord3 = ord2" "lines3 = lines2" by simp_all
    with inv2 show ?thesis unfolding cg by simp
  qed
  have p5: "order_total_invariant ord3 lines4 \<longleftrightarrow> tax_data_consistent td ?lines1"
    if st: "\<forall>ord2. get_taxes_for_order m ord2 = Inr (Some td)" for td
  proof -
    from tx st have "tax_data = Some td" by simp
    with ov have "apply_tax_data ord2 lines2 td = Inr (ord3, lines3)" by simp
    from apply_tax_data_invariant_iff [OF this]
    have "order_total_invariant ord3 lines3 \<longleftrightarrow> tax_data_consistent td lines2" .
    then show ?thesis
      unfolding cg tax_data_consistent_ids [OF id2] .
  qed
  have p6: "ord' = ord3" if "?man = []"
    using dcf that d3' by simp
  have p7: "order_total_invariant ord' lines4 \<and>
        amount (net (total ord'))
          = amount (net (shipping_price ord'))
            + sum_list (map (\<lambda>l. amount (net (total_price l))) lines4) \<and>
        amount (gross (total ord'))
          = amount (gross (shipping_price ord'))
            + sum_list (map (\<lambda>l. amount (gross (total_price l))) lines4) \<and>
        currency (net (total ord')) = order_currency ord' \<and>
        currency (gross (total ord')) = order_currency ord'"
    if "?man = []" and nt: "\<forall>ord2. get_taxes_for_order m ord2 = Inr None"
  proof -
    from p4 [OF nt] p6 [OF that(1)] have i: "order_total_invariant ord' lines4" by simp
    from i order_total_invariant_amounts [OF i] show ?thesis by simp
  qed
  have p8: "total (db_order w') = total ord'" "shipping_price (db_order w') = shipping_price ord'"
    unfolding w' using order_save_fields [of lines4 ord'] by simp_all
  show ?thesis
  proof (intro exI conjI)
    show "lines' = Some lines4" by (rule ls)
    show "update_order_discounts env ord3 ?man (lg1 @ [GetTaxesForOrder]) = (Inr ord', lg2)"
      by (rule p2)
    show "shipping_price ord3 = shipping_price ord'" by (rule p3)
    show "(\<forall>ord2. get_taxes_for_order m ord2 = Inr None) \<longrightarrow> order_total_invariant ord3 lines4"
      using p4 by blast
    show "\<forall>td. (\<forall>ord2. get_taxes_for_order m ord2 = Inr (Some td)) \<longrightarrow>
        (order_total_invariant ord3 lines4 \<longleftrightarrow> tax_data_consistent td ?lines1)"
      using p5 by blast
    show "?man = [] \<longrightarrow> ord' = ord3" using p6 by blast
    show "?man = [] \<and> (\<forall>ord2. get_taxes_for_order m ord2 = Inr None) \<longrightarrow>
        order_total_invariant ord' lines4 \<and>
        amount (net (total ord'))
          = amount (net (shipping_price ord'))
            + sum_list (map (\<lambda>l. amount (net (total_price l))) lines4) \<and>
        amount (gross (total ord'))
          = amount (gross (shipping_price ord'))
            + sum_list (map (\<lambda>l. amount (gross (total_price l))) lines4) \<and>
        currency (net (total ord')) = order_currency ord' \<and>
        currency (gross (total ord')) = order_currency ord'"
      using p7 by blast
    show "total (db_order w') = total ord'" by (rule p8(1))
    show "shipping_price (db_order w') = shipping_price ord'" by (rule p8(2))
  qed
qed

theorem fetch_total_invariant_witness:
  "status ex_order \<in> set (ORDER_EDITABLE_STATUS ex_env) \<and>
   \<not> (100 :: int) < price_expiration_for_unconfirmed ex_order \<and>
   get_taxes_for_order ex_manager ex_order = Inr None \<and>
   filter (\<lambda>d. discount_type d = MANUAL) (discounts ex_order) = [] \<and>
   fst (fetch_order_prices_if_expired ex_env ex_manager 100 100 ex_order (Some [ex_line])
          False ex_world)
     = Inr ((ex_order\<lparr>price_expiration_for_unconfirmed := 3700, shipping_price := usd 5,
               shipping_tax_rate := 1 / 10, total := usd 32\<rparr>),
            Some [(ex_line\<lparr>undiscounted_unit_price := usd 11, unit_price := usd 9,
               undiscounted_total_price := usd 33, total_price := usd 27, tax_rate := 1 / 5\<rparr>)]) \<and>
   order_total_invariant
     (ex_order\<lparr>price_expiration_for_unconfirmed := 3700, shipping_price := usd 5,
               shipping_tax_rate := 1 / 10, total := usd 32\<rparr>)
     [(ex_line\<lparr>undiscounted_unit_price := usd 11, unit_price := usd 9,
               undiscounted_total_price := usd 33, total_price := usd 27, tax_rate := 1 / 5\<rparr>)] \<and>
   tax_data_consistent (ex_tax_data\<lparr>total_net_amount := 31, total_gross_amount := 36\<rparr>)
     [ex_line] \<and>
   fst (fetch_order_prices_if_expired ex_env
          (ex_manager\<lparr>get_taxes_for_order :=
                      (\<lambda>ord. Inr (Some (ex_tax_data\<lparr>total_net_amount := 31,
                                                       total_gross_amount := 36\<rparr>)))\<rparr>)
          100 100 ex_order (Some [ex_line]) False ex_world)
     = Inr ((ex_order\<lparr>price_expiration_for_unconfirmed := 3700,
               shipping_price := TaxedMoney (Money 10 ''USD'') (Money 12 ''USD''),
               shipping_tax_rate := 1 / 5,
               total := TaxedMoney (Money 31 ''USD'') (Money 36 ''USD'')\<rparr>),
            Some [(ex_line\<lparr>undiscounted_unit_price := TaxedMoney (Money 9 ''USD'') (Money 10 ''USD''),
               unit_price := TaxedMoney (Money 7 ''USD'') (Money 8 ''USD''),
               undiscounted_total_price := TaxedMoney (Money 27 ''USD'') (Money 30 ''USD''),
               total_price := TaxedMoney (Money 21 ''USD'') (Money 24 ''USD''),
               tax_rate := 1 / 7\<rparr>)]) \<and>
   order_total_invariant
     (ex_order\<lparr>price_expiration_for_unconfirmed := 3700,
               shipping_price := TaxedMoney (Money 10 ''USD'') (Money 12 ''USD''),
               shipping_tax_rate := 1 / 5,
               total := TaxedMoney (Money 31 ''USD'') (Money 36 ''USD'')\<rparr>)
     [(ex_line\<lparr>undiscounted_unit_price := TaxedMoney (Money 9 ''USD'') (Money 10 ''USD''),
               unit_price := TaxedMoney (Money 7 ''USD'') (Money 8 ''USD''),
               undiscounted_total_price := TaxedMoney (Money 27 ''USD'') (Money 30 ''USD''),
               total_price := TaxedMoney (Money 21 ''USD'') (Money 24 ''USD''),
               tax_rate := 1 / 7\<rparr>)]"
proof -
  let ?o = "(ex_order\<lparr>price_expiration_for_unconfirmed := 3700, shipping_price := usd 5,
               shipping_tax_rate := 1 / 10, total := usd 32\<rparr>)"
  let ?l = "(ex_line\<lparr>undiscounted_unit_price := usd 11, unit_price := usd 9,
               undiscounted_total_price := usd 33, total_price := usd 27, tax_rate := 1 / 5\<rparr>)"
  let ?w = "snd (fetch_order_prices_if_expired ex_env ex_manager 100 100 ex_order
                   (Some [ex_line]) False ex_world)"
  let ?td = "ex_tax_data\<lparr>total_net_amount := 31, total_gross_amount := 36\<rparr>"
  let ?mt = "(ex_manager\<lparr>get_taxes_for_order :=
                      (\<lambda>ord. Inr (Some (ex_tax_data\<lparr>total_net_amount := 31,
                                                       total_gross_amount := 36\<rparr>)))\<rparr>)"
  let ?ot = "(ex_order\<lparr>price_expiration_for_unconfirmed := 3700,
               shipping_price := TaxedMoney (Money 10 ''USD'') (Money 12 ''USD''),
               shipping_tax_rate := 1 / 5,
               total := TaxedMoney (Money 31 ''USD'') (Money 36 ''USD'')\<rparr>)"
  let ?lt = "(ex_line\<lparr>undiscounted_unit_price := TaxedMoney (Money 9 ''USD'') (Money 10 ''USD''),
               unit_price := TaxedMoney (Money 7 ''USD'') (Money 8 ''USD''),
               undiscounted_total_price := TaxedMoney (Money 27 ''USD'') (Money 30 ''USD''),
               total_price := TaxedMoney (Money 21 ''USD'') (Money 24 ''USD''),
               tax_rate := 1 / 7\<rparr>)"
  let ?wt = "snd (fetch_order_prices_if_expired ex_env ?mt 100 100 ex_order
                    (Some [ex_line]) False ex_world)"
  have h1: "status ex_order \<in> set (ORDER_EDITABLE_STATUS ex_env)" by (simp add: ex_defs)
  have h2: "False \<or> \<not> (100 :: int) < price_expiration_for_unconfirmed ex_order"
    by (simp add: ex_defs)
  have h3: "\<forall>ord2. get_taxes_for_order ex_manager ord2 = Inr None" by (simp add: ex_defs)
  have h4: "filter (\<lambda>d. discount_type d = MANUAL) (discounts ex_order) = []"
    by (simp add: ex_defs)
  have r: "fst (fetch_order_prices_if_expired ex_env ex_manager 100 100 ex_order (Some [ex_line])
          False ex_world) = Inr (?o, Some [?l])"
    by (simp add: fetch_order_prices_if_expired_def ex_defs money_defs engine_defs commit_defs)
  then have h5: "fetch_order_prices_if_expired ex_env ex_manager 100 100 ex_order (Some [ex_line])
          False ex_world = (Inr (?o, Some [?l]), ?w)"
    by (simp add: prod_eq_iff)
  from fetch_total_invariant [OF h1 h2 h5] obtain base ls where
    a: "Some [?l] = Some ls" and
    b: "filter (\<lambda>d. discount_type d = MANUAL) (discounts ex_order) = [] \<and>
      (\<forall>ord2. get_taxes_for_order ex_manager ord2 = Inr None) \<longrightarrow>
        order_total_invariant ?o ls"
    by blast
  from a b h3 h4 have i1: "order_total_invariant ?o [?l]" by simp
  have c: "tax_data_consistent ?td [ex_line]"
    by (simp add: tax_data_consistent_def tax_line_total_def tax_lines_dict_def ex_defs)
  have t3: "\<forall>ord2. get_taxes_for_order ?mt ord2 = Inr (Some ?td)" by simp
  have rt: "fst (fetch_order_prices_if_expired ex_env ?mt 100 100 ex_order (Some [ex_line])
          False ex_world) = Inr (?ot, Some [?lt])"
    by (simp add: fetch_order_prices_if_expired_def ex_defs money_defs engine_defs commit_defs)
  then have t5: "fetch_order_prices_if_expired ex_env ?mt 100 100 ex_order (Some [ex_line])
          False ex_world = (Inr (?ot, Some [?lt]), ?wt)"
    by (simp add: prod_eq_iff)
  from fetch_total_invariant [OF h1 h2 t5] obtain base ls where
    ta: "Some [?lt] = Some ls" and
    tb: "\<forall>td. (\<forall>ord2. get_taxes_for_order ?mt ord2 = Inr (Some td)) \<longrightarrow>
        (order_total_invariant base ls \<longleftrightarrow>
         tax_data_consistent td (case Some [ex_line] of None \<Rightarrow> db_lines ex_world | Some xs \<Rightarrow> xs))" and
    tc: "filter (\<lambda>d. discount_type d = MANUAL) (discounts ex_order) = [] \<longrightarrow> ?ot = base"
    by blast
  from tc h4 have "base = ?ot" by simp
  moreover from ta have "ls = [?lt]" by simp
  moreover from tb t3 c have "order_total_invariant base ls" by simp
  ultimately have i2: "order_total_invariant ?ot [?lt]" by simp
  from h3 have h3': "get_taxes_for_order ex_manager ex_order = Inr None" by (rule spec)
  from h1 h2 h3' h4 r i1 c rt i2 show ?thesis by (intro conjI) simp_all
qed

text \<open>
  The claim as first stated fails in two ways.  With tax data whose figures do not add up
  the committed total is the total of the tax data (100 net), while the shipping price
  and the line total are 10 and 21 net.  With a manual discount of 10.00 that lowers the
  total, as the spec describes the effect of a manual discount, the committed total is
  22 while the shipping price and the line total are 5 and 27.
\<close>

theorem fetch_total_invariant_counterexample:
  "status ex_order \<in> set (ORDER_EDITABLE_STATUS ex_env) \<and>
   \<not> (100 :: int) < price_expiration_for_unconfirmed ex_order \<and>
   (\<exists>ord' line' w'.
      fetch_order_prices_if_expired ex_env
        (ex_manager\<lparr>get_taxes_for_order := (\<lambda>ord. Inr (Some ex_tax_data))\<rparr>)
        100 100 ex_order (Some [ex_line]) False ex_world
        = (Inr (ord', Some [line']), w') \<and>
      total (db_order w') = total ord' \<and>
      amount (net (total ord')) = 100 \<and>
      amount (net (shipping_price ord')) + amount (net (total_price line')) = 31 \<and>
      \<not> order_total_invariant ord' [line']) \<and>
   status ex_discounted_order \<in> set (ORDER_EDITABLE_STATUS ex_discount_env) \<and>
   \<not> (100 :: int) < price_expiration_for_unconfirmed ex_discounted_order \<and>
   get_taxes_for_order ex_manager ex_discounted_order = Inr None \<and>
   (\<exists>ord' line' w'.
      fetch_order_prices_if_expired ex_discount_env ex_manager
        100 100 ex_discounted_order (Some [ex_line]) False ex_world
        = (Inr (ord', Some [line']), w') \<and>
      total (db_order w') = total ord' \<and>
      amount (net (total ord')) = 22 \<and>
      amount (net (shipping_price ord')) + amount (net (total_price line')) = 32 \<and>
      \<not> order_total_invariant ord' [line'])"
  by (simp add: fetch_order_prices_if_expired_def ex_defs ex_discount_defs money_defs engine_defs
        commit_defs order_total_invariant_def)

subsection \<open>Precedence of the tax data\<close>

lemma apply_tax_data_total:
  assumes "\<forall>l \<in> set ls. line_id l \<in> tl_id ` set (td_lines td)"
  shows "\<exists>r. apply_tax_data ord ls td = Inr r"
proof -
  let ?ord1 = "ord\<lparr>total := create_taxed_money ord (total_net_amount td) (total_gross_amount td),
                     shipping_price := create_taxed_money ord (shipping_price_net_amount td)
                                         (shipping_price_gross_amount td),
                     shipping_tax_rate := td_shipping_tax_rate td\<rparr>"
  from assms have "\<forall>l \<in> set ls. tax_lines_dict td (line_id l) \<noteq> None"
    by (simp add: tax_lines_dict_None)
  from apply_tax_lines_total [OF this] obtain ls' where
    "apply_tax_lines ?ord1 (tax_lines_dict td) ls = Inr ls'" by blast
  then have "apply_tax_data ord ls td = Inr (?ord1, ls')"
    by (simp add: apply_tax_data_def Let_def)
  then show ?thesis by blast
qed


lemma apply_tax_data_fields:
  assumes "apply_tax_data ord ls td = Inr (ord', ls')"
  shows "total ord' = TaxedMoney (Money (total_net_amount td) (order_currency ord))
                     (Money (total_gross_amount td) (order_currency ord))"
    and "shipping_price ord'
        = TaxedMoney (Money (shipping_price_net_amount td) (order_currency ord))
            (Money (shipping_price_gross_amount td) (order_currency ord))"
    and "shipping_tax_rate ord' = td_shipping_tax_rate td"
    and "length ls' = length ls"
    and "\<And>i. i < length ls \<Longrightarrow>
      \<exists>tx. tax_lines_dict td (line_id (ls ! i)) = Some tx \<and>
         tx \<in> set (td_lines td) \<and> tl_id tx = line_id (ls ! i) \<and>
         line_id (ls' ! i) = line_id (ls ! i) \<and>
         unit_price (ls' ! i)
           = TaxedMoney (Money (unit_net_amount tx) (order_currency ord))
               (Money (unit_gross_amount tx) (order_currency ord)) \<and>
         total_price (ls' ! i)
           = TaxedMoney (Money (tl_total_net_amount tx) (order_currency ord))
               (Money (tl_total_gross_amount tx) (order_currency ord)) \<and>
         tax_rate (ls' ! i) = tl_tax_rate tx"
proof -
  note b = apply_tax_data_Inr [OF assms]
  from b show "total ord' = TaxedMoney (Money (total_net_amount td) (order_currency ord))
                     (Money (total_gross_amount td) (order_currency ord))"
    by (simp add: create_taxed_money_def)
  from b show "shipping_price ord'
        = TaxedMoney (Money (shipping_price_net_amount td) (order_currency ord))
            (Money (shipping_price_gross_amount td) (order_currency ord))"
    by (simp add: create_taxed_money_def)
  from b show "shipping_tax_rate ord' = td_shipping_tax_rate td" by simp
  from b show "length ls' = length ls" by simp
  fix i
  assume "i < length ls"
  with b obtain tx where
    c: "tax_lines_dict td (line_id (ls ! i)) = Some tx" "tx \<in> set (td_lines td)"
       "tl_id tx = line_id (ls ! i)" and
    d: "ls' ! i = (ls ! i)
              \<lparr>unit_price := create_taxed_money ord (unit_net_amount tx) (unit_gross_amount tx),
               total_price := create_taxed_money ord (tl_total_net_amount tx)
                                (tl_total_gross_amount tx),
               tax_rate := tl_tax_rate tx\<rparr>"
    by blast
  show "\<exists>tx.
         tax_lines_dict td (line_id (ls ! i)) = Some tx \<and>
         tx \<in> set (td_lines td) \<and> tl_id tx = line_id (ls ! i) \<and>
         line_id (ls' ! i) = line_id (ls ! i) \<and>
         unit_price (ls' ! i)
           = TaxedMoney (Money (unit_net_amount tx) (order_currency ord))
               (Money (unit_gross_amount tx) (order_currency ord)) \<and>
         total_price (ls' ! i)
           = TaxedMoney (Money (tl_total_net_amount tx) (order_currency ord))
               (Money (tl_total_gross_amount tx) (order_currency ord)) \<and>
         tax_rate (ls' ! i) = tl_tax_rate tx"
    using c d by (intro exI [of _ tx]) (simp add: create_taxed_money_def)
qed


lemma nth_map_eq:
  "map f xs = map f ys \<Longrightarrow> i < length xs \<Longrightarrow> f (xs ! i) = f (ys ! i)"
  by (metis length_map nth_map)


lemma fetch_tax_data_fields:
  assumes "status ord \<in> set (ORDER_EDITABLE_STATUS env)"
    and "force_update \<or> \<not> now_check < price_expiration_for_unconfirmed ord"
    and "\<forall>ord2. get_taxes_for_order m ord2 = Inr (Some td)"
    and "fetch_order_prices_if_expired env m now_check now_refresh ord lines force_update w
           = (Inr (ord', lines'), w')"
  shows "shipping_price ord'
        = TaxedMoney (Money (shipping_price_net_amount td) (order_currency ord))
            (Money (shipping_price_gross_amount td) (order_currency ord)) \<and>
     shipping_tax_rate ord' = td_shipping_tax_rate td \<and>
     (filter (\<lambda>d. discount_type d = MANUAL) (discounts ord) = [] \<longrightarrow>
        total ord' = TaxedMoney (Money (total_net_amount td) (order_currency ord))
                       (Money (total_gross_amount td) (order_currency ord))) \<and>
     (\<exists>ls'. lines' = Some ls' \<and>
        length ls' = length (case lines of None \<Rightarrow> db_lines w | Some ls \<Rightarrow> ls) \<and>
        (\<forall>i < length ls'. \<exists>tx.
           tax_lines_dict td (line_id (ls' ! i)) = Some tx \<and>
           tx \<in> set (td_lines td) \<and> tl_id tx = line_id (ls' ! i) \<and>
           unit_price (ls' ! i)
             = TaxedMoney (Money (unit_net_amount tx) (order_currency ord))
                 (Money (unit_gross_amount tx) (order_currency ord)) \<and>
           total_price (ls' ! i)
             = TaxedMoney (Money (tl_total_net_amount tx) (order_currency ord))
                 (Money (tl_total_gross_amount tx) (order_currency ord)) \<and>
           tax_rate (ls' ! i) = tl_tax_rate tx))"
proof -
  let ?lines1 = "case lines of None \<Rightarrow> db_lines w | Some ls \<Rightarrow> ls"
  from assms(1,2,4) obtain ord2 lines2 lg1 tax_data ord3 lines3 lines4 lg2 where
    eng: "recalculate_order_prices m
       (ord\<lparr>price_expiration_for_unconfirmed := now_refresh + ORDER_PRICES_TTL env\<rparr>)
       ?lines1 (calls w) = (Inr (ord2, lines2), lg1)" and
    tx: "get_taxes_for_order m ord2 = Inr tax_data" and
    ov: "(case tax_data of None \<Rightarrow> Inr (ord2, lines2) | Some td \<Rightarrow> apply_tax_data ord2 lines2 td)
       = Inr (ord3, lines3)" and
    dc: "recalculate_order_discounts env ord3 lines3 (lg1 @ [GetTaxesForOrder])
       = (Inr (ord', lines4), lg2)" and
    ls: "lines' = Some lines4"
    by (rule fetch_stale_Inr)
  from tx assms(3) have "tax_data = Some td" by simp
  with ov have ov': "apply_tax_data ord2 lines2 td = Inr (ord3, lines3)" by simp
  from recalculate_order_prices_Inr [OF eng] have
    c2: "order_currency ord2 = order_currency ord" and d2: "discounts ord2 = discounts ord" and
    n2: "length lines2 = length ?lines1"
    by simp_all
  note f3 = apply_tax_data_fields [OF ov', unfolded c2]
  from apply_tax_data_Inr [OF ov'] have d3: "discounts ord3 = discounts ord2" by simp
  note dcf = recalculate_order_discounts_Inr [OF dc]
  from dcf have l4: "recalculate_line_discounts lines3 = Inr lines4" by simp
  note fr = recalculate_line_discounts_frame [OF l4]
  from fr f3(4) n2 have n4: "length lines4 = length ?lines1" "length lines4 = length lines2"
    by simp_all
  have m1: "map line_id lines4 = map line_id lines3" and
    m2: "map unit_price lines4 = map unit_price lines3" and
    m3: "map total_price lines4 = map total_price lines3" and
    m4: "map tax_rate lines4 = map tax_rate lines3"
    using fr by blast+
  have l4': "\<exists>tx. tax_lines_dict td (line_id (lines4 ! i)) = Some tx \<and>
         tx \<in> set (td_lines td) \<and> tl_id tx = line_id (lines4 ! i) \<and>
         unit_price (lines4 ! i)
           = TaxedMoney (Money (unit_net_amount tx) (order_currency ord))
               (Money (unit_gross_amount tx) (order_currency ord)) \<and>
         total_price (lines4 ! i)
           = TaxedMoney (Money (tl_total_net_amount tx) (order_currency ord))
               (Money (tl_total_gross_amount tx) (order_currency ord)) \<and>
         tax_rate (lines4 ! i) = tl_tax_rate tx" if i4: "i < length lines4" for i
  proof -
    from i4 n4 have i2: "i < length lines2" by simp
    note e = nth_map_eq [OF m1 i4] nth_map_eq [OF m2 i4] nth_map_eq [OF m3 i4]
      nth_map_eq [OF m4 i4]
    from f3(5) [OF i2] obtain tx where
      f: "tax_lines_dict td (line_id (lines2 ! i)) = Some tx \<and>
         tx \<in> set (td_lines td) \<and> tl_id tx = line_id (lines2 ! i) \<and>
         line_id (lines3 ! i) = line_id (lines2 ! i) \<and>
         unit_price (lines3 ! i)
           = TaxedMoney (Money (unit_net_amount tx) (order_currency ord))
               (Money (unit_gross_amount tx) (order_currency ord)) \<and>
         total_price (lines3 ! i)
           = TaxedMoney (Money (tl_total_net_amount tx) (order_currency ord))
               (Money (tl_total_gross_amount tx) (order_currency ord)) \<and>
         tax_rate (lines3 ! i) = tl_tax_rate tx"
      by (rule exE)
    show ?thesis
      by (rule exI [of _ tx]) (simp only: e f simp_thms)
  qed
  have l4all: "\<forall>i < length lines4. \<exists>tx. tax_lines_dict td (line_id (lines4 ! i)) = Some tx \<and>
         tx \<in> set (td_lines td) \<and> tl_id tx = line_id (lines4 ! i) \<and>
         unit_price (lines4 ! i)
           = TaxedMoney (Money (unit_net_amount tx) (order_currency ord))
               (Money (unit_gross_amount tx) (order_currency ord)) \<and>
         total_price (lines4 ! i)
           = TaxedMoney (Money (tl_total_net_amount tx) (order_currency ord))
               (Money (tl_total_gross_amount tx) (order_currency ord)) \<and>
         tax_rate (lines4 ! i) = tl_tax_rate tx"
    using l4' by blast
  have t: "filter (\<lambda>d. discount_type d = MANUAL) (discounts ord) = [] \<longrightarrow> total ord' = total ord3"
    using dcf d3 d2 by simp
  have s1: "shipping_price ord'
        = TaxedMoney (Money (shipping_price_net_amount td) (order_currency ord))
            (Money (shipping_price_gross_amount td) (order_currency ord))"
    using dcf f3(2) by simp
  have s2: "shipping_tax_rate ord' = td_shipping_tax_rate td"
    using dcf f3(3) by simp
  have s3: "filter (\<lambda>d. discount_type d = MANUAL) (discounts ord) = [] \<longrightarrow>
        total ord' = TaxedMoney (Money (total_net_amount td) (order_currency ord))
                       (Money (total_gross_amount td) (order_currency ord))"
    using t f3(1) by simp
  have s4: "\<exists>ls'. lines' = Some ls' \<and>
        length ls' = length ?lines1 \<and>
        (\<forall>i < length ls'. \<exists>tx. tax_lines_dict td (line_id (ls' ! i)) = Some tx \<and>
         tx \<in> set (td_lines td) \<and> tl_id tx = line_id (ls' ! i) \<and>
         unit_price (ls' ! i)
           = TaxedMoney (Money (unit_net_amount tx) (order_currency ord))
               (Money (unit_gross_amount tx) (order_currency ord)) \<and>
         total_price (ls' ! i)
           = TaxedMoney (Money (tl_total_net_amount tx) (order_currency ord))
               (Money (tl_total_gross_amount tx) (order_currency ord)) \<and>
         tax_rate (ls' ! i) = tl_tax_rate tx)"
    using ls n4(1) l4all by (intro exI [of _ lines4] conjI)
  from s1 s2 s3 s4 show ?thesis by blast
qed


text \<open>
  C3.  Applying the overlay to any order and lines (whatever the engine left in them)
  sets the order total, the shipping price (net and gross, tagged with the currency of
  the order) and the shipping tax rate to the values of the tax data, and sets unit
  price, total price and tax rate of every line to those of the tax data entry with the
  id of the line; the overlay returns whenever every line has an entry.  In a committing
  pass of \<^verbatim>\<open>fetch_order_prices_if_expired\<close> that received tax data, the returned shipping
  price, shipping tax rate and the lines' unit price, total price and tax rate are those
  of the tax data, and so is the total when the order has no manual discount.
\<close>

theorem tax_data_overwrites:
  "(\<forall>ord ls.
      ((\<forall>l \<in> set ls. line_id l \<in> tl_id ` set (td_lines td)) \<longrightarrow>
         (\<exists>r. apply_tax_data ord ls td = Inr r)) \<and>
      (\<forall>ord' ls'.
         apply_tax_data ord ls td = Inr (ord', ls') \<longrightarrow>
         total ord' = TaxedMoney (Money (total_net_amount td) (order_currency ord))
                        (Money (total_gross_amount td) (order_currency ord)) \<and>
         shipping_price ord'
           = TaxedMoney (Money (shipping_price_net_amount td) (order_currency ord))
               (Money (shipping_price_gross_amount td) (order_currency ord)) \<and>
         shipping_tax_rate ord' = td_shipping_tax_rate td \<and>
         length ls' = length ls \<and>
         (\<forall>i < length ls. \<exists>tx.
            tax_lines_dict td (line_id (ls ! i)) = Some tx \<and>
            tx \<in> set (td_lines td) \<and> tl_id tx = line_id (ls ! i) \<and>
            line_id (ls' ! i) = line_id (ls ! i) \<and>
            unit_price (ls' ! i)
              = TaxedMoney (Money (unit_net_amount tx) (order_currency ord))
                  (Money (unit_gross_amount tx) (order_currency ord)) \<and>
            total_price (ls' ! i)
              = TaxedMoney (Money (tl_total_net_amount tx) (order_currency ord))
                  (Money (tl_total_gross_amount tx) (order_currency ord)) \<and>
            tax_rate (ls' ! i) = tl_tax_rate tx))) \<and>
   (\<forall>env m now_check now_refresh ord lines force_update w ord' lines' w'.
      status ord \<in> set (ORDER_EDITABLE_STATUS env) \<and>
      (force_update \<or> \<not> now_check < price_expiration_for_unconfirmed ord) \<and>
      (\<forall>ord2. get_taxes_for_order m ord2 = Inr (Some td)) \<and>
      fetch_order_prices_if_expired env m now_check now_refresh ord lines force_update w
        = (Inr (ord', lines'), w') \<longrightarrow>
      shipping_price ord'
        = TaxedMoney (Money (shipping_price_net_amount td) (order_currency ord))
            (Money (shipping_price_gross_amount td) (order_currency ord)) \<and>
      shipping_tax_rate ord' = td_shipping_tax_rate td \<and>
      (filter (\<lambda>d. discount_type d = MANUAL) (discounts ord) = [] \<longrightarrow>
         total ord' = TaxedMoney (Money (total_net_amount td) (order_currency ord))
                        (Money (total_gross_amount td) (order_currency ord))) \<and>
      (\<exists>ls'. lines' = Some ls' \<and>
         length ls' = length (case lines of None \<Rightarrow> db_lines w | Some ls \<Rightarrow> ls) \<and>
         (\<forall>i < length ls'. \<exists>tx.
            tax_lines_dict td (line_id (ls' ! i)) = Some tx \<and>
            tx \<in> set (td_lines td) \<and> tl_id tx = line_id (ls' ! i) \<and>
            unit_price (ls' ! i)
              = TaxedMoney (Money (unit_net_amount tx) (order_currency ord))
                  (Money (unit_gross_amount tx) (order_currency ord)) \<and>
            total_price (ls' ! i)
              = TaxedMoney (Money (tl_total_net_amount tx) (order_currency ord))
                  (Money (tl_total_gross_amount tx) (order_currency ord)) \<and>
            tax_rate (ls' ! i) = tl_tax_rate tx)))"
proof (rule conjI)
  show "\<forall>ord ls.
      ((\<forall>l \<in> set ls. line_id l \<in> tl_id ` set (td_lines td)) \<longrightarrow>
         (\<exists>r. apply_tax_data ord ls td = Inr r)) \<and>
      (\<forall>ord' ls'.
         apply_tax_data ord ls td = Inr (ord', ls') \<longrightarrow>
         total ord' = TaxedMoney (Money (total_net_amount td) (order_currency ord))
                        (Money (total_gross_amount td) (order_currency ord)) \<and>
         shipping_price ord'
           = TaxedMoney (Money (shipping_price_net_amount td) (order_currency ord))
               (Money (shipping_price_gross_amount td) (order_currency ord)) \<and>
         shipping_tax_rate ord' = td_shipping_tax_rate td \<and>
         length ls' = length ls \<and>
         (\<forall>i < length ls. \<exists>tx.
            tax_lines_dict td (line_id (ls ! i)) = Some tx \<and>
            tx \<in> set (td_lines td) \<and> tl_id tx = line_id (ls ! i) \<and>
            line_id (ls' ! i) = line_id (ls ! i) \<and>
            unit_price (ls' ! i)
              = TaxedMoney (Money (unit_net_amount tx) (order_currency ord))
                  (Money (unit_gross_amount tx) (order_currency ord)) \<and>
            total_price (ls' ! i)
              = TaxedMoney (Money (tl_total_net_amount tx) (order_currency ord))
                  (Money (tl_total_gross_amount tx) (order_currency ord)) \<and>
            tax_rate (ls' ! i) = tl_tax_rate tx))"
    by (intro allI conjI impI;
        (erule apply_tax_data_total | erule apply_tax_data_fields(1) |
         erule apply_tax_data_fields(2) | erule apply_tax_data_fields(3) |
         erule apply_tax_data_fields(4) | (erule apply_tax_data_fields(5), assumption)))
next
  show "\<forall>env m now_check now_refresh ord lines force_update w ord' lines' w'.
      status ord \<in> set (ORDER_EDITABLE_STATUS env) \<and>
      (force_update \<or> \<not> now_check < price_expiration_for_unconfirmed ord) \<and>
      (\<forall>ord2. get_taxes_for_order m ord2 = Inr (Some td)) \<and>
      fetch_order_prices_if_expired env m now_check now_refresh ord lines force_update w
        = (Inr (ord', lines'), w') \<longrightarrow>
      shipping_price ord'
        = TaxedMoney (Money (shipping_price_net_amount td) (order_currency ord))
            (Money (shipping_price_gross_amount td) (order_currency ord)) \<and>
      shipping_tax_rate ord' = td_shipping_tax_rate td \<and>
      (filter (\<lambda>d. discount_type d = MANUAL) (discounts ord) = [] \<longrightarrow>
         total ord' = TaxedMoney (Money (total_net_amount td) (order_currency ord))
                        (Money (total_gross_amount td) (order_currency ord))) \<and>
      (\<exists>ls'. lines' = Some ls' \<and>
         length ls' = length (case lines of None \<Rightarrow> db_lines w | Some ls \<Rightarrow> ls) \<and>
         (\<forall>i < length ls'. \<exists>tx.
            tax_lines_dict td (line_id (ls' ! i)) = Some tx \<and>
            tx \<in> set (td_lines td) \<and> tl_id tx = line_id (ls' ! i) \<and>
            unit_price (ls' ! i)
              = TaxedMoney (Money (unit_net_amount tx) (order_currency ord))
                  (Money (unit_gross_amount tx) (order_currency ord)) \<and>
            total_price (ls' ! i)
              = TaxedMoney (Money (tl_total_net_amount tx) (order_currency ord))
                  (Money (tl_total_gross_amount tx) (order_currency ord)) \<and>
            tax_rate (ls' ! i) = tl_tax_rate tx))"
    by (intro allI impI, elim conjE) (rule fetch_tax_data_fields)
qed


theorem tax_data_overwrites_witness:
  "apply_tax_data ex_order [ex_line] ex_tax_data
     = Inr (ex_order\<lparr>total := TaxedMoney (Money 100 ''USD'') (Money 120 ''USD''),
                      shipping_price := TaxedMoney (Money 10 ''USD'') (Money 12 ''USD''),
                      shipping_tax_rate := 1 / 5\<rparr>,
            [ex_line\<lparr>unit_price := TaxedMoney (Money 7 ''USD'') (Money 8 ''USD''),
                      total_price := TaxedMoney (Money 21 ''USD'') (Money 24 ''USD''),
                      tax_rate := 1 / 7\<rparr>]) \<and>
   shipping_tax_rate
     (ex_order\<lparr>total := TaxedMoney (Money 100 ''USD'') (Money 120 ''USD''),
               shipping_price := TaxedMoney (Money 10 ''USD'') (Money 12 ''USD''),
               shipping_tax_rate := 1 / 5\<rparr>) = td_shipping_tax_rate ex_tax_data \<and>
   shipping_tax_rate ex_order = 0 \<and> total ex_order = usd 0 \<and>
   unit_price ex_line = usd 8 \<and> tax_rate ex_line = 0"
proof -
  let ?o = "ex_order\<lparr>total := TaxedMoney (Money 100 ''USD'') (Money 120 ''USD''),
                      shipping_price := TaxedMoney (Money 10 ''USD'') (Money 12 ''USD''),
                      shipping_tax_rate := 1 / 5\<rparr>"
  let ?l = "ex_line\<lparr>unit_price := TaxedMoney (Money 7 ''USD'') (Money 8 ''USD''),
                      total_price := TaxedMoney (Money 21 ''USD'') (Money 24 ''USD''),
                      tax_rate := 1 / 7\<rparr>"
  have r: "apply_tax_data ex_order [ex_line] ex_tax_data = Inr (?o, [?l])"
    by (simp add: ex_defs money_defs commit_defs)
  note t = tax_data_overwrites [of ex_tax_data, THEN conjunct1, THEN spec, THEN spec,
      THEN conjunct2, THEN spec, THEN spec, THEN mp, OF r]
  from t have "shipping_tax_rate ?o = td_shipping_tax_rate ex_tax_data" by (elim conjE)
  with r show ?thesis by (simp add: ex_defs)
qed

subsection \<open>Tax data that misses a line\<close>

text \<open>
  C4.  In a stale pass whose tax capability returns tax data that has no entry for one
  of the lines being priced, \<^verbatim>\<open>fetch_order_prices_if_expired\<close> raises, and the stored
  order and lines are what they were before the pass.  When the engine itself returned,
  the exception is the \<^verbatim>\<open>KeyError\<close> of \<^verbatim>\<open>tax_lines[line.id]\<close> in \<^verbatim>\<open>_apply_tax_data\<close>: the
  line is not skipped.
\<close>

theorem tax_data_line_mismatch_aborts:
  assumes "status ord \<in> set (ORDER_EDITABLE_STATUS env)"
    and "force_update \<or> \<not> now_check < price_expiration_for_unconfirmed ord"
    and "\<forall>ord2. get_taxes_for_order m ord2 = Inr (Some td)"
    and "\<exists>l \<in> set (case lines of None \<Rightarrow> db_lines w | Some ls \<Rightarrow> ls).
           line_id l \<notin> tl_id ` set (td_lines td)"
  shows "\<exists>e w'.
     fetch_order_prices_if_expired env m now_check now_refresh ord lines force_update w
       = (Inl e, w') \<and>
     db_order w' = db_order w \<and> db_lines w' = db_lines w \<and>
     (\<forall>ord2 lines2 lg.
        recalculate_order_prices m
          (ord\<lparr>price_expiration_for_unconfirmed := now_refresh + ORDER_PRICES_TTL env\<rparr>)
          (case lines of None \<Rightarrow> db_lines w | Some ls \<Rightarrow> ls) (calls w)
          = (Inr (ord2, lines2), lg) \<longrightarrow>
        e = KeyError \<and> apply_tax_data ord2 lines2 td = Inl KeyError)"
proof -
  let ?lines1 = "case lines of None \<Rightarrow> db_lines w | Some ls \<Rightarrow> ls"
  let ?eng = "recalculate_order_prices m
       (ord\<lparr>price_expiration_for_unconfirmed := now_refresh + ORDER_PRICES_TTL env\<rparr>)
       ?lines1 (calls w)"
  note st = fetch_stale [OF assms(1,2), of m now_refresh lines w]
  obtain r lg1 where eng: "?eng = (r, lg1)" by (cases ?eng)
  show ?thesis
  proof (cases r)
    case (Inl e)
    from eng Inl have eng': "?eng = (Inl e, lg1)" by simp
    have f: "fetch_order_prices_if_expired env m now_check now_refresh ord lines force_update w
         = (Inl e, w\<lparr>calls := lg1\<rparr>)"
      by (rule fetch_stale_engine_Inl [OF assms(1,2) eng'])
    show ?thesis
    proof (intro exI conjI)
      show "fetch_order_prices_if_expired env m now_check now_refresh ord lines force_update w
         = (Inl e, w\<lparr>calls := lg1\<rparr>)" by (rule f)
      show "db_order (w\<lparr>calls := lg1\<rparr>) = db_order w" by simp
      show "db_lines (w\<lparr>calls := lg1\<rparr>) = db_lines w" by simp
      show "\<forall>ord2 lines2 lg. ?eng = (Inr (ord2, lines2), lg) \<longrightarrow>
        e = KeyError \<and> apply_tax_data ord2 lines2 td = Inl KeyError"
        unfolding eng' by simp
    qed
  next
    case (Inr p)
    obtain ord2 lines2 where p: "p = (ord2, lines2)" by (cases p)
    from eng Inr p have eng': "?eng = (Inr (ord2, lines2), lg1)" by simp
    from recalculate_order_prices_Inr [OF eng'] have "map line_id lines2 = map line_id ?lines1"
      by (elim conjE)
    then have "set (map line_id lines2) = set (map line_id ?lines1)" by (rule arg_cong)
    then have "line_id ` set lines2 = line_id ` set ?lines1" by (simp only: set_map)
    then have ids: "line_id ` set ?lines1 = line_id ` set lines2" by (rule sym)
    from assms(4) obtain l where l1: "l \<in> set ?lines1" and
      l2: "line_id l \<notin> tl_id ` set (td_lines td)" by (rule bexE)
    from l1 have "line_id l \<in> line_id ` set ?lines1" by (rule imageI)
    then have "line_id l \<in> line_id ` set lines2" unfolding ids .
    then obtain l' where "line_id l = line_id l'" "l' \<in> set lines2" by (rule imageE)
    with l2 have "\<exists>l \<in> set lines2. line_id l \<notin> tl_id ` set (td_lines td)" by auto
    from apply_tax_data_missing [OF this]
    have ke: "apply_tax_data ord2 lines2 td = Inl KeyError" .
    let ?w1 = "w\<lparr>calls := lg1 @ [GetTaxesForOrder]\<rparr>"
    let ?w2 = "?w1\<lparr>db_order := db_order ?w1, db_lines := db_lines ?w1\<rparr>"
    from ke have "apply_and_save env ord2 lines2 (Some td) ?w1 = (Inl KeyError, ?w1)"
      by (simp add: apply_and_save_def)
    then have ta: "transaction_atomic (apply_and_save env ord2 lines2 (Some td)) ?w1
        = (Inl KeyError, ?w2)"
      by (simp add: transaction_atomic_def)
    from assms(3) have tx: "get_taxes_for_order m ord2 = Inr (Some td)" by (rule spec)
    have f: "fetch_order_prices_if_expired env m now_check now_refresh ord lines force_update w
         = (Inl KeyError, ?w2)"
      unfolding st eng' by (simp only: prod.case sum.case tx ta)
    show ?thesis
    proof (intro exI conjI)
      show "fetch_order_prices_if_expired env m now_check now_refresh ord lines force_update w
         = (Inl KeyError, ?w2)" by (rule f)
      show "db_order ?w2 = db_order w" by simp
      show "db_lines ?w2 = db_lines w" by simp
      show "\<forall>ord2' lines2' lg. ?eng = (Inr (ord2', lines2'), lg) \<longrightarrow>
        KeyError = KeyError \<and> apply_tax_data ord2' lines2' td = Inl KeyError"
        unfolding eng' using ke by simp
    qed
  qed
qed


theorem tax_data_line_mismatch_aborts_witness:
  "status ex_order \<in> set (ORDER_EDITABLE_STATUS ex_env) \<and>
   \<not> (100 :: int) < price_expiration_for_unconfirmed ex_order \<and>
   line_id ex_line2 \<notin> tl_id ` set (td_lines ex_tax_data) \<and>
   fst (fetch_order_prices_if_expired ex_env
          (ex_manager\<lparr>get_taxes_for_order := (\<lambda>ord. Inr (Some ex_tax_data))\<rparr>)
          100 100 ex_order (Some [ex_line, ex_line2]) False ex_world) = Inl KeyError \<and>
   db_order (snd (fetch_order_prices_if_expired ex_env
          (ex_manager\<lparr>get_taxes_for_order := (\<lambda>ord. Inr (Some ex_tax_data))\<rparr>)
          100 100 ex_order (Some [ex_line, ex_line2]) False ex_world)) = db_order ex_world \<and>
   db_lines (snd (fetch_order_prices_if_expired ex_env
          (ex_manager\<lparr>get_taxes_for_order := (\<lambda>ord. Inr (Some ex_tax_data))\<rparr>)
          100 100 ex_order (Some [ex_line, ex_line2]) False ex_world)) = db_lines ex_world"
proof -
  let ?m = "ex_manager\<lparr>get_taxes_for_order := (\<lambda>ord. Inr (Some ex_tax_data))\<rparr>"
  have h1: "status ex_order \<in> set (ORDER_EDITABLE_STATUS ex_env)" by (simp add: ex_defs)
  have h2: "False \<or> \<not> (100 :: int) < price_expiration_for_unconfirmed ex_order"
    by (simp add: ex_defs)
  have h3: "\<forall>ord2. get_taxes_for_order ?m ord2 = Inr (Some ex_tax_data)" by simp
  have h4': "line_id ex_line2 \<notin> tl_id ` set (td_lines ex_tax_data)" by (simp add: ex_defs)
  then have h4: "\<exists>l \<in> set (case Some [ex_line, ex_line2] of None \<Rightarrow> db_lines ex_world | Some ls \<Rightarrow> ls).
           line_id l \<notin> tl_id ` set (td_lines ex_tax_data)"
    by simp
  have r: "fst (fetch_order_prices_if_expired ex_env ?m 100 100 ex_order
                  (Some [ex_line, ex_line2]) False ex_world) = Inl KeyError"
    by (simp add: fetch_order_prices_if_expired_def ex_defs money_defs engine_defs commit_defs)
  from tax_data_line_mismatch_aborts [OF h1 h2 h3 h4, of 100]
  obtain e w' where
    "fetch_order_prices_if_expired ex_env ?m 100 100 ex_order (Some [ex_line, ex_line2]) False ex_world
       = (Inl e, w')" "db_order w' = db_order ex_world" "db_lines w' = db_lines ex_world"
    by blast
  then have "db_order (snd (fetch_order_prices_if_expired ex_env ?m 100 100 ex_order
                  (Some [ex_line, ex_line2]) False ex_world)) = db_order ex_world"
    "db_lines (snd (fetch_order_prices_if_expired ex_env ?m 100 100 ex_order
                  (Some [ex_line, ex_line2]) False ex_world)) = db_lines ex_world"
    by simp_all
  with h1 h2 h4' r show ?thesis by blast
qed

subsection \<open>Failures of the pricing capability\<close>

text \<open>When the body of the \<^verbatim>\<open>try\<close> block of a line raises: one of its three calls did.\<close>

lemma recalculate_line_try_raises:
  "fst (recalculate_line_try m ord l v lg) = Some e \<longleftrightarrow>
     calculate_order_line_unit m ord l v (product v) = Inl e \<or>
     (\<exists>u. calculate_order_line_unit m ord l v (product v) = Inr u \<and>
        (calculate_order_line_total m ord
           (l\<lparr>undiscounted_unit_price := undiscounted_price u,
              unit_price := price_with_discounts u\<rparr>) v (product v) = Inl e \<or>
         (\<exists>t. calculate_order_line_total m ord
                 (l\<lparr>undiscounted_unit_price := undiscounted_price u,
                    unit_price := price_with_discounts u\<rparr>) v (product v) = Inr t \<and>
              get_order_line_tax_rate m ord (product v) v (undiscounted_price u) = Inl e)))"
  by (simp add: recalculate_line_try_def Let_def split: sum.splits)

lemma recalculate_line_unit_TaxError:
  assumes "variant l = Some v"
    and "calculate_order_line_unit m ord l v (product v) = Inl TaxError"
  shows "recalculate_line m ord l lg = (Inr l, lg @ [CalculateOrderLineUnit (line_id l)])"
  using assms
  by (simp add: recalculate_line_def recalculate_line_try_def Let_def except_TaxError_def)



lemma recalculate_shipping_try_log_indep:
  "fst (recalculate_shipping_try m ord lg) = fst (recalculate_shipping_try m ord lg') \<and>
   fst (snd (recalculate_shipping_try m ord lg)) = fst (snd (recalculate_shipping_try m ord lg'))"
  by (simp add: recalculate_shipping_try_def Let_def split: sum.splits)







lemma recalculate_order_prices_shipping:
  assumes "recalculate_order_prices m ord ls lg = (Inr (ord', ls'), lg')"
  shows "shipping_price ord' = shipping_price (fst (snd (recalculate_shipping_try m ord []))) \<and>
     shipping_tax_rate ord' = shipping_tax_rate (fst (snd (recalculate_shipping_try m ord [])))"
proof -
  from assms obtain s lg1 exc ord1 t where
    b: "recalculate_shipping_try m ord lg1 = (exc, ord1, lg')" and
    d: "ord' = ord1\<lparr>total := t\<rparr>"
    by (auto simp: recalculate_order_prices_def split: prod.splits sum.splits option.splits)
  from b have "fst (snd (recalculate_shipping_try m ord lg1)) = ord1" by simp
  then have "fst (snd (recalculate_shipping_try m ord [])) = ord1"
    using recalculate_shipping_try_log_indep [of m ord "[]" lg1] by simp
  with d show ?thesis by simp
qed


lemma recalculate_line_total_TaxError:
  assumes "variant l = Some v"
    and "calculate_order_line_unit m ord l v (product v) = Inr u"
    and "calculate_order_line_total m ord
        (l\<lparr>undiscounted_unit_price := undiscounted_price u,
           unit_price := price_with_discounts u\<rparr>) v (product v) = Inl TaxError"
  shows "fst (recalculate_line m ord l lg)
        = Inr (l\<lparr>undiscounted_unit_price := undiscounted_price u,
                  unit_price := price_with_discounts u\<rparr>)"
  using assms
  by (simp add: recalculate_line_def recalculate_line_try_def Let_def except_TaxError_def)

lemma recalculate_line_tax_rate_TaxError:
  assumes "variant l = Some v"
    and "calculate_order_line_unit m ord l v (product v) = Inr u"
    and "calculate_order_line_total m ord
        (l\<lparr>undiscounted_unit_price := undiscounted_price u,
           unit_price := price_with_discounts u\<rparr>) v (product v) = Inr t"
    and "get_order_line_tax_rate m ord (product v) v (undiscounted_price u) = Inl TaxError"
  shows "fst (recalculate_line m ord l lg)
        = Inr (l\<lparr>undiscounted_unit_price := undiscounted_price u,
                  unit_price := price_with_discounts u,
                  undiscounted_total_price := undiscounted_price t,
                  total_price := price_with_discounts t\<rparr>)"
  using assms
  by (simp add: recalculate_line_def recalculate_line_try_def Let_def except_TaxError_def)

text \<open>
  C2 (as amended).  \<^verbatim>\<open>_recalculate_order_prices\<close> never raises \<^verbatim>\<open>TaxError\<close>.  For a line
  with a variant: when the first pricing call (\<^verbatim>\<open>calculate_order_line_unit\<close>) raises
  \<^verbatim>\<open>TaxError\<close>, the engine leaves the line exactly as it was; when the second call
  (\<^verbatim>\<open>calculate_order_line_total\<close>) raises it, the line has the new undiscounted unit
  price and unit price and nothing else is changed; when the third call
  (\<^verbatim>\<open>get_order_line_tax_rate\<close>) raises it, the line has the new four prices and the old
  tax rate.  When the engine returns, every line is what pricing that line alone gives,
  and the shipping price and shipping tax rate are what pricing shipping alone gives: a
  failure for one line changes nothing for the other lines nor for shipping.
\<close>

theorem tax_error_fail_soft:
  "fst (recalculate_order_prices m ord ls lg) \<noteq> Inl TaxError \<and>
   (\<forall>l v. variant l = Some v \<and>
      calculate_order_line_unit m ord l v (product v) = Inl TaxError \<longrightarrow>
      fst (recalculate_line m ord l lg) = Inr l) \<and>
   (\<forall>l v u. variant l = Some v \<and>
      calculate_order_line_unit m ord l v (product v) = Inr u \<and>
      calculate_order_line_total m ord
        (l\<lparr>undiscounted_unit_price := undiscounted_price u,
           unit_price := price_with_discounts u\<rparr>) v (product v) = Inl TaxError \<longrightarrow>
      fst (recalculate_line m ord l lg)
        = Inr (l\<lparr>undiscounted_unit_price := undiscounted_price u,
                  unit_price := price_with_discounts u\<rparr>)) \<and>
   (\<forall>l v u t. variant l = Some v \<and>
      calculate_order_line_unit m ord l v (product v) = Inr u \<and>
      calculate_order_line_total m ord
        (l\<lparr>undiscounted_unit_price := undiscounted_price u,
           unit_price := price_with_discounts u\<rparr>) v (product v) = Inr t \<and>
      get_order_line_tax_rate m ord (product v) v (undiscounted_price u) = Inl TaxError \<longrightarrow>
      fst (recalculate_line m ord l lg)
        = Inr (l\<lparr>undiscounted_unit_price := undiscounted_price u,
                  unit_price := price_with_discounts u,
                  undiscounted_total_price := undiscounted_price t,
                  total_price := price_with_discounts t\<rparr>)) \<and>
   (\<forall>ord' ls' lg'.
      recalculate_order_prices m ord ls lg = (Inr (ord', ls'), lg') \<longrightarrow>
      length ls' = length ls \<and>
      (\<forall>i < length ls. fst (recalculate_line m ord (ls ! i) []) = Inr (ls' ! i)) \<and>
      (\<forall>i < length ls. \<forall>v. variant (ls ! i) = Some v \<and>
         calculate_order_line_unit m ord (ls ! i) v (product v) = Inl TaxError \<longrightarrow>
         ls' ! i = ls ! i) \<and>
      shipping_price ord' = shipping_price (fst (snd (recalculate_shipping_try m ord []))) \<and>
      shipping_tax_rate ord'
        = shipping_tax_rate (fst (snd (recalculate_shipping_try m ord []))))"
proof (intro conjI)
  show "fst (recalculate_order_prices m ord ls lg) \<noteq> Inl TaxError"
    by (rule recalculate_order_prices_not_TaxError)
next
  show "(\<forall>l v. variant l = Some v \<and>
      calculate_order_line_unit m ord l v (product v) = Inl TaxError \<longrightarrow>
      fst (recalculate_line m ord l lg) = Inr l)"
    by (simp add: recalculate_line_unit_TaxError)
next
  show "(\<forall>l v u. variant l = Some v \<and>
      calculate_order_line_unit m ord l v (product v) = Inr u \<and>
      calculate_order_line_total m ord
        (l\<lparr>undiscounted_unit_price := undiscounted_price u,
           unit_price := price_with_discounts u\<rparr>) v (product v) = Inl TaxError \<longrightarrow>
      fst (recalculate_line m ord l lg)
        = Inr (l\<lparr>undiscounted_unit_price := undiscounted_price u,
                  unit_price := price_with_discounts u\<rparr>))"
    by (intro allI impI, elim conjE) (rule recalculate_line_total_TaxError)
next
  show "(\<forall>l v u t. variant l = Some v \<and>
      calculate_order_line_unit m ord l v (product v) = Inr u \<and>
      calculate_order_line_total m ord
        (l\<lparr>undiscounted_unit_price := undiscounted_price u,
           unit_price := price_with_discounts u\<rparr>) v (product v) = Inr t \<and>
      get_order_line_tax_rate m ord (product v) v (undiscounted_price u) = Inl TaxError \<longrightarrow>
      fst (recalculate_line m ord l lg)
        = Inr (l\<lparr>undiscounted_unit_price := undiscounted_price u,
                  unit_price := price_with_discounts u,
                  undiscounted_total_price := undiscounted_price t,
                  total_price := price_with_discounts t\<rparr>))"
    by (intro allI impI, elim conjE) (rule recalculate_line_tax_rate_TaxError)
next
  show "(\<forall>ord' ls' lg'.
      recalculate_order_prices m ord ls lg = (Inr (ord', ls'), lg') \<longrightarrow>
      length ls' = length ls \<and>
      (\<forall>i < length ls. fst (recalculate_line m ord (ls ! i) []) = Inr (ls' ! i)) \<and>
      (\<forall>i < length ls. \<forall>v. variant (ls ! i) = Some v \<and>
         calculate_order_line_unit m ord (ls ! i) v (product v) = Inl TaxError \<longrightarrow>
         ls' ! i = ls ! i) \<and>
      shipping_price ord' = shipping_price (fst (snd (recalculate_shipping_try m ord []))) \<and>
      shipping_tax_rate ord'
        = shipping_tax_rate (fst (snd (recalculate_shipping_try m ord []))))"
  proof (intro allI impI)
    fix ord' ls' lg'
    assume a: "recalculate_order_prices m ord ls lg = (Inr (ord', ls'), lg')"
    then obtain s lg1 where
      b: "recalculate_lines m ord ls (zero_taxed_money (order_currency ord)) lg
            = (Inr (ls', s), lg1)"
      by (auto simp: recalculate_order_prices_def split: prod.splits sum.splits option.splits)
    from recalculate_lines_Inr [OF b] have
      n: "length ls' = length ls" and
      mp: "map (\<lambda>l. fst (recalculate_line m ord l [])) ls = map Inr ls'"
      by simp_all
    have each: "fst (recalculate_line m ord (ls ! i) []) = Inr (ls' ! i)" if "i < length ls" for i
    proof -
      from that have x: "map (\<lambda>l. fst (recalculate_line m ord l [])) ls ! i
          = fst (recalculate_line m ord (ls ! i) [])" by simp
      from that n have y: "map Inr ls' ! i = Inr (ls' ! i)" by simp
      from x [symmetric] y show ?thesis unfolding mp by (rule trans)
    qed
    have same: "ls' ! i = ls ! i"
      if "i < length ls" and "variant (ls ! i) = Some v" and
        "calculate_order_line_unit m ord (ls ! i) v (product v) = Inl TaxError" for i v
    proof -
      from recalculate_line_unit_TaxError [OF that(2,3), of "[]"]
      have "fst (recalculate_line m ord (ls ! i) []) = Inr (ls ! i)" by simp
      with each [OF that(1)] show ?thesis by simp
    qed
    show "length ls' = length ls \<and>
      (\<forall>i < length ls. fst (recalculate_line m ord (ls ! i) []) = Inr (ls' ! i)) \<and>
      (\<forall>i < length ls. \<forall>v. variant (ls ! i) = Some v \<and>
         calculate_order_line_unit m ord (ls ! i) v (product v) = Inl TaxError \<longrightarrow>
         ls' ! i = ls ! i) \<and>
      shipping_price ord' = shipping_price (fst (snd (recalculate_shipping_try m ord []))) \<and>
      shipping_tax_rate ord'
        = shipping_tax_rate (fst (snd (recalculate_shipping_try m ord [])))"
      using n each same recalculate_order_prices_shipping [OF a] by blast
  qed
qed

theorem tax_error_fail_soft_witness:
  "variant ex_line = Some ex_variant \<and>
   calculate_order_line_unit (ex_manager\<lparr>calculate_order_line_unit :=
        (\<lambda>ord line v p. if line_id line = 1 then Inl TaxError
           else Inr \<lparr>undiscounted_price = usd 11, price_with_discounts = usd 9\<rparr>)\<rparr>) ex_order ex_line ex_variant (product ex_variant) = Inl TaxError \<and>
   fst (recalculate_order_prices (ex_manager\<lparr>calculate_order_line_unit :=
        (\<lambda>ord line v p. if line_id line = 1 then Inl TaxError
           else Inr \<lparr>undiscounted_price = usd 11, price_with_discounts = usd 9\<rparr>)\<rparr>) ex_order [ex_line, ex_line2] [])
     = Inr (ex_order\<lparr>shipping_price := usd 5, shipping_tax_rate := 1 / 10, total := usd 56\<rparr>,
            [ex_line,
             ex_line2\<lparr>undiscounted_unit_price := usd 11, unit_price := usd 9,
                       undiscounted_total_price := usd 33, total_price := usd 27,
                       tax_rate := 1 / 5\<rparr>]) \<and>
   fst (recalculate_order_prices (ex_manager\<lparr>calculate_order_line_unit :=
        (\<lambda>ord line v p. if line_id line = 1 then Inl TaxError
           else Inr \<lparr>undiscounted_price = usd 11, price_with_discounts = usd 9\<rparr>)\<rparr>) ex_order [ex_line, ex_line2] []) \<noteq> Inl TaxError \<and>
   fst (recalculate_line (ex_manager\<lparr>calculate_order_line_unit :=
        (\<lambda>ord line v p. if line_id line = 1 then Inl TaxError
           else Inr \<lparr>undiscounted_price = usd 11, price_with_discounts = usd 9\<rparr>)\<rparr>) ex_order ex_line []) = Inr ex_line \<and>
   calculate_order_line_total (ex_manager\<lparr>calculate_order_line_total := (\<lambda>ord line v p. Inl TaxError)\<rparr>) ex_order
     (ex_line\<lparr>undiscounted_unit_price := usd 11, unit_price := usd 9\<rparr>)
     ex_variant (product ex_variant) = Inl TaxError \<and>
   fst (recalculate_line (ex_manager\<lparr>calculate_order_line_total := (\<lambda>ord line v p. Inl TaxError)\<rparr>) ex_order ex_line [])
     = Inr (ex_line\<lparr>undiscounted_unit_price := usd 11, unit_price := usd 9\<rparr>) \<and>
   get_order_line_tax_rate (ex_manager\<lparr>get_order_line_tax_rate := (\<lambda>ord p v price. Inl TaxError)\<rparr>) ex_order (product ex_variant) ex_variant (usd 11) = Inl TaxError \<and>
   fst (recalculate_line (ex_manager\<lparr>get_order_line_tax_rate := (\<lambda>ord p v price. Inl TaxError)\<rparr>) ex_order ex_line [])
     = Inr (ex_line\<lparr>undiscounted_unit_price := usd 11, unit_price := usd 9,
                     undiscounted_total_price := usd 33, total_price := usd 27\<rparr>)"
proof -
  let ?m = "(ex_manager\<lparr>calculate_order_line_unit :=
        (\<lambda>ord line v p. if line_id line = 1 then Inl TaxError
           else Inr \<lparr>undiscounted_price = usd 11, price_with_discounts = usd 9\<rparr>)\<rparr>)"
  let ?mt = "(ex_manager\<lparr>calculate_order_line_total := (\<lambda>ord line v p. Inl TaxError)\<rparr>)"
  let ?mr = "(ex_manager\<lparr>get_order_line_tax_rate := (\<lambda>ord p v price. Inl TaxError)\<rparr>)"
  let ?u = "\<lparr>undiscounted_price = usd 11, price_with_discounts = usd 9\<rparr>"
  let ?t = "\<lparr>undiscounted_price = usd 33, price_with_discounts = usd 27\<rparr>"
  have c: "variant ex_line = Some ex_variant" by (simp add: ex_defs)
  have u: "calculate_order_line_unit ?m ex_order ex_line ex_variant (product ex_variant)
             = Inl TaxError"
    by (simp add: ex_defs)
  have r: "fst (recalculate_order_prices ?m ex_order [ex_line, ex_line2] [])
     = Inr (ex_order\<lparr>shipping_price := usd 5, shipping_tax_rate := 1 / 10, total := usd 56\<rparr>,
            [ex_line,
             ex_line2\<lparr>undiscounted_unit_price := usd 11, unit_price := usd 9,
                       undiscounted_total_price := usd 33, total_price := usd 27,
                       tax_rate := 1 / 5\<rparr>])"
    by (simp add: ex_defs money_defs engine_defs)
  note t = tax_error_fail_soft [of ?m ex_order "[ex_line, ex_line2]" "[]"]
  from t have n: "fst (recalculate_order_prices ?m ex_order [ex_line, ex_line2] []) \<noteq> Inl TaxError"
    by (rule conjunct1)
  from t [THEN conjunct2, THEN conjunct1, rule_format, OF conjI [OF c u]]
  have l: "fst (recalculate_line ?m ex_order ex_line []) = Inr ex_line" .
  have tu: "calculate_order_line_unit ?mt ex_order ex_line ex_variant (product ex_variant) = Inr ?u"
    by (simp add: ex_defs)
  have tt: "calculate_order_line_total ?mt ex_order
     (ex_line\<lparr>undiscounted_unit_price := undiscounted_price ?u,
               unit_price := price_with_discounts ?u\<rparr>)
     ex_variant (product ex_variant) = Inl TaxError"
    by simp
  from tax_error_fail_soft [of ?mt ex_order "[ex_line]" "[]", THEN conjunct2, THEN conjunct2,
      THEN conjunct1, rule_format, OF conjI [OF c conjI [OF tu tt]]]
  have l2: "fst (recalculate_line ?mt ex_order ex_line [])
     = Inr (ex_line\<lparr>undiscounted_unit_price := usd 11, unit_price := usd 9\<rparr>)"
    by simp
  have ru: "calculate_order_line_unit ?mr ex_order ex_line ex_variant (product ex_variant) = Inr ?u"
    by (simp add: ex_defs)
  have rt: "calculate_order_line_total ?mr ex_order
     (ex_line\<lparr>undiscounted_unit_price := undiscounted_price ?u,
               unit_price := price_with_discounts ?u\<rparr>)
     ex_variant (product ex_variant) = Inr ?t"
    by (simp add: ex_defs)
  have rr: "get_order_line_tax_rate ?mr ex_order (product ex_variant) ex_variant
              (undiscounted_price ?u) = Inl TaxError"
    by simp
  from tax_error_fail_soft [of ?mr ex_order "[ex_line]" "[]", THEN conjunct2, THEN conjunct2,
      THEN conjunct2, THEN conjunct1, rule_format, OF conjI [OF c conjI [OF ru conjI [OF rt rr]]]]
  have l3: "fst (recalculate_line ?mr ex_order ex_line [])
     = Inr (ex_line\<lparr>undiscounted_unit_price := usd 11, unit_price := usd 9,
                     undiscounted_total_price := usd 33, total_price := usd 27\<rparr>)"
    by simp
  from tt have tt': "calculate_order_line_total ?mt ex_order
     (ex_line\<lparr>undiscounted_unit_price := usd 11, unit_price := usd 9\<rparr>)
     ex_variant (product ex_variant) = Inl TaxError" by simp
  from rr have rr': "get_order_line_tax_rate ?mr ex_order (product ex_variant) ex_variant (usd 11)
     = Inl TaxError" by simp
  from c u r n l tt' l2 rr' l3 show ?thesis by (intro conjI)
qed

text \<open>
  The claim as first stated fails when the second pricing call of a line raises
  \<^verbatim>\<open>TaxError\<close>: the unit price and the undiscounted unit price of the line have been
  assigned by then (lines 38--39) and stay assigned.
\<close>

theorem tax_error_partial_update_counterexample:
  "variant ex_line = Some ex_variant \<and>
   calculate_order_line_total (ex_manager\<lparr>calculate_order_line_total := (\<lambda>ord line v p. Inl TaxError)\<rparr>)
     (ex_order)
     (ex_line\<lparr>undiscounted_unit_price := usd 11, unit_price := usd 9\<rparr>)
     ex_variant (product ex_variant) = Inl TaxError \<and>
   fst (recalculate_order_prices (ex_manager\<lparr>calculate_order_line_total := (\<lambda>ord line v p. Inl TaxError)\<rparr>) ex_order [ex_line] [])
     = Inr (ex_order\<lparr>shipping_price := usd 5, shipping_tax_rate := 1 / 10, total := usd 29\<rparr>,
            [ex_line\<lparr>undiscounted_unit_price := usd 11, unit_price := usd 9\<rparr>]) \<and>
   unit_price (ex_line\<lparr>undiscounted_unit_price := usd 11, unit_price := usd 9\<rparr>)
     \<noteq> unit_price ex_line \<and>
   undiscounted_unit_price (ex_line\<lparr>undiscounted_unit_price := usd 11, unit_price := usd 9\<rparr>)
     \<noteq> undiscounted_unit_price ex_line"
  by (simp add: ex_defs money_defs engine_defs)

subsection \<open>Two calls in succession\<close>

lemma fetch_stale_expiration:
  assumes "status ord \<in> set (ORDER_EDITABLE_STATUS env)"
    and "force_update \<or> \<not> now_check < price_expiration_for_unconfirmed ord"
    and "fetch_order_prices_if_expired env m now_check now_refresh ord lines force_update w
           = (Inr (ord', lines'), w')"
  shows "price_expiration_for_unconfirmed ord' = now_refresh + ORDER_PRICES_TTL env \<and>
         status ord' = status ord"
proof -
  let ?ord1 = "ord\<lparr>price_expiration_for_unconfirmed := now_refresh + ORDER_PRICES_TTL env\<rparr>"
  from assms obtain ord2 lines2 lg1 tax_data ord3 lines3 lines4 lg2 where
    eng: "recalculate_order_prices m ?ord1
       (case lines of None \<Rightarrow> db_lines w | Some ls \<Rightarrow> ls) (calls w)
       = (Inr (ord2, lines2), lg1)" and
    ov: "(case tax_data of None \<Rightarrow> Inr (ord2, lines2) | Some td \<Rightarrow> apply_tax_data ord2 lines2 td)
       = Inr (ord3, lines3)" and
    dc: "recalculate_order_discounts env ord3 lines3 (lg1 @ [GetTaxesForOrder])
       = (Inr (ord', lines4), lg2)"
    by (rule fetch_stale_Inr)
  from recalculate_order_prices_Inr [OF eng] have
    e2: "price_expiration_for_unconfirmed ord2 = now_refresh + ORDER_PRICES_TTL env"
      "status ord2 = status ord"
    by simp_all
  have e3: "price_expiration_for_unconfirmed ord3 = price_expiration_for_unconfirmed ord2 \<and>
            status ord3 = status ord2"
  proof (cases tax_data)
    case None
    with ov show ?thesis by simp
  next
    case (Some td)
    with ov have "apply_tax_data ord2 lines2 td = Inr (ord3, lines3)" by simp
    from apply_tax_data_Inr [OF this] show ?thesis by simp
  qed
  from recalculate_order_discounts_Inr [OF dc] have
    "price_expiration_for_unconfirmed ord' = price_expiration_for_unconfirmed ord3"
    "status ord' = status ord3"
    by simp_all
  with e2 e3 show ?thesis by simp
qed


text \<open>
  C7.  When a call of \<^verbatim>\<open>fetch_order_prices_if_expired\<close> on an editable order refreshes
  and returns, the returned order expires at the instant read at the start of the
  refresh plus the TTL.  A second call without \<open>force_update\<close> on what the first call
  returned, made while the clock is before that instant, returns the same order and
  lines and leaves the world as the first call left it: nothing is written and the log
  of capability calls does not grow, whatever the manager.
\<close>

theorem fetch_twice_idempotent:
  assumes "status ord \<in> set (ORDER_EDITABLE_STATUS env)"
    and "force_update \<or> \<not> now_check < price_expiration_for_unconfirmed ord"
    and "fetch_order_prices_if_expired env m now_check now_refresh ord lines force_update w
           = (Inr (ord', lines'), w')"
    and "now_check2 < now_refresh + ORDER_PRICES_TTL env"
  shows "price_expiration_for_unconfirmed ord' = now_refresh + ORDER_PRICES_TTL env \<and>
     fetch_order_prices_if_expired env m2 now_check2 now_refresh2 ord' lines' False w'
       = (Inr (ord', lines'), w') \<and>
     calls (snd (fetch_order_prices_if_expired env m2 now_check2 now_refresh2 ord' lines' False w'))
       = calls w'"
proof -
  from fetch_stale_expiration [OF assms(1,2,3)] have
    e: "price_expiration_for_unconfirmed ord' = now_refresh + ORDER_PRICES_TTL env" by simp
  with assms(4) have "fetch_order_prices_if_expired env m2 now_check2 now_refresh2 ord' lines' False w'
       = (Inr (ord', lines'), w')"
    by (simp add: fetch_order_prices_if_expired_def)
  with e show ?thesis by simp
qed


theorem fetch_twice_idempotent_witness:
  "status ex_order \<in> set (ORDER_EDITABLE_STATUS ex_env) \<and>
   \<not> (100 :: int) < price_expiration_for_unconfirmed ex_order \<and>
   (200 :: int) < 100 + ORDER_PRICES_TTL ex_env \<and>
   fst (fetch_order_prices_if_expired ex_env ex_manager 100 100 ex_order (Some [ex_line])
          False ex_world)
     = Inr (ex_order\<lparr>price_expiration_for_unconfirmed := 3700, shipping_price := usd 5,
                      shipping_tax_rate := 1 / 10, total := usd 32\<rparr>,
            Some [ex_line\<lparr>undiscounted_unit_price := usd 11, unit_price := usd 9,
                          undiscounted_total_price := usd 33, total_price := usd 27,
                          tax_rate := 1 / 5\<rparr>]) \<and>
   fetch_order_prices_if_expired ex_env ex_manager 200 200
     (ex_order\<lparr>price_expiration_for_unconfirmed := 3700, shipping_price := usd 5,
               shipping_tax_rate := 1 / 10, total := usd 32\<rparr>)
     (Some [ex_line\<lparr>undiscounted_unit_price := usd 11, unit_price := usd 9,
                   undiscounted_total_price := usd 33, total_price := usd 27,
                   tax_rate := 1 / 5\<rparr>])
     False
     (snd (fetch_order_prices_if_expired ex_env ex_manager 100 100 ex_order (Some [ex_line])
             False ex_world))
     = (Inr (ex_order\<lparr>price_expiration_for_unconfirmed := 3700, shipping_price := usd 5,
                       shipping_tax_rate := 1 / 10, total := usd 32\<rparr>,
             Some [ex_line\<lparr>undiscounted_unit_price := usd 11, unit_price := usd 9,
                           undiscounted_total_price := usd 33, total_price := usd 27,
                           tax_rate := 1 / 5\<rparr>]),
        snd (fetch_order_prices_if_expired ex_env ex_manager 100 100 ex_order (Some [ex_line])
               False ex_world))"
proof -
  let ?o = "ex_order\<lparr>price_expiration_for_unconfirmed := 3700, shipping_price := usd 5,
               shipping_tax_rate := 1 / 10, total := usd 32\<rparr>"
  let ?l = "ex_line\<lparr>undiscounted_unit_price := usd 11, unit_price := usd 9,
               undiscounted_total_price := usd 33, total_price := usd 27, tax_rate := 1 / 5\<rparr>"
  let ?w = "snd (fetch_order_prices_if_expired ex_env ex_manager 100 100 ex_order
                   (Some [ex_line]) False ex_world)"
  have h1: "status ex_order \<in> set (ORDER_EDITABLE_STATUS ex_env)" by (simp add: ex_defs)
  have h2: "False \<or> \<not> (100 :: int) < price_expiration_for_unconfirmed ex_order"
    by (simp add: ex_defs)
  have h4: "(200 :: int) < 100 + ORDER_PRICES_TTL ex_env" by (simp add: ex_defs)
  have r: "fst (fetch_order_prices_if_expired ex_env ex_manager 100 100 ex_order (Some [ex_line])
          False ex_world) = Inr (?o, Some [?l])"
    by (simp add: fetch_order_prices_if_expired_def ex_defs money_defs engine_defs commit_defs)
  then have h3: "fetch_order_prices_if_expired ex_env ex_manager 100 100 ex_order (Some [ex_line])
          False ex_world = (Inr (?o, Some [?l]), ?w)"
    by (simp add: prod_eq_iff)
  from fetch_twice_idempotent [OF h1 h2 h3 h4, of ex_manager 200]
  have "fetch_order_prices_if_expired ex_env ex_manager 200 200 ?o (Some [?l]) False ?w
          = (Inr (?o, Some [?l]), ?w)"
    by (elim conjE)
  with h1 h2 h4 r show ?thesis by (intro conjI) simp_all
qed

end
